theory Spec2Isabelle
  imports Main "HOL-Library.Multiset"
begin

section \<open>Go values\<close>

text \<open>
  The bot is written in Go. A Go \<open>int\<close> is modelled as an \<open>int\<close> of HOL that is kept
  inside the 64-bit two's complement range (the width of \<open>int\<close> on the amd64 and arm64
  targets the bot is built for): the one multiplication and the one division of the
  code wrap around through \<open>wrap64\<close>. Go divides towards zero and panics on a zero
  divisor; indexing outside a slice panics. A panic is a value of type \<open>panic\<close>, and a
  function that can panic returns \<open>panic + 'a\<close>.
\<close>

datatype panic = DivideByZero | IndexOutOfRange | SliceBoundsOutOfRange

definition wrap64 :: "int \<Rightarrow> int" where
  "wrap64 x = (x + 2 ^ 63) mod 2 ^ 64 - 2 ^ 63"

definition go_mul :: "int \<Rightarrow> int \<Rightarrow> int" where
  "go_mul a b = wrap64 (a * b)"

definition go_div :: "int \<Rightarrow> int \<Rightarrow> panic + int" where
  "go_div a b =
     (if b = 0 then Inl DivideByZero
      else Inr (wrap64 (sgn a * sgn b * (\<bar>a\<bar> div \<bar>b\<bar>))))"

text \<open>\<open>xs[i]\<close> for a Go \<open>int\<close> index.\<close>

definition index :: "'a list \<Rightarrow> int \<Rightarrow> panic + 'a" where
  "index xs i =
     (if 0 \<le> i \<and> i < int (length xs) then Inr (xs ! nat i) else Inl IndexOutOfRange)"

section \<open>The leaderboard (internal/service/leaderboard.go)\<close>

record LeaderboardEntry =
  UserID :: int
  Username :: string
  FirstName :: string
  Score :: int
  Total :: int
  Percentage :: int
  Date :: string

text \<open>
  \<open>AddEntry\<close> of both services builds the same entry. \<open>now\<close> stands for the formatted
  \<open>time.Now()\<close>.
\<close>

definition newEntry ::
  "string \<Rightarrow> int \<Rightarrow> string \<Rightarrow> string \<Rightarrow> int \<Rightarrow> int \<Rightarrow> int \<Rightarrow> LeaderboardEntry" where
  "newEntry now userID username firstName score total' percentage =
     \<lparr>UserID = userID, Username = username, FirstName = firstName, Score = score,
      Total = total', Percentage = percentage, Date = now\<rparr>"

subsection \<open>MemoryLeaderboardService\<close>

text \<open>
  The loop of \<open>MemoryLeaderboardService.AddEntry\<close>: it returns from inside the loop at
  the first entry of the user (\<open>Some\<close> the entries then), and falls through otherwise
  (\<open>None\<close>).
\<close>

fun memoryLoop ::
  "int \<Rightarrow> int \<Rightarrow> int \<Rightarrow> LeaderboardEntry \<Rightarrow> LeaderboardEntry list \<Rightarrow> LeaderboardEntry list option"
where
  "memoryLoop userID percentage score new [] = None"
| "memoryLoop userID percentage score new (entry # rest) =
     (if UserID entry = userID then
        (if percentage > Percentage entry \<or> (percentage = Percentage entry \<and> score > Score entry)
         then Some (new # rest)
         else Some (entry # rest))
      else map_option ((#) entry) (memoryLoop userID percentage score new rest))"

text \<open>
  Lines 256 to 266, for a percentage already computed: the pair is the boolean the
  function returns and the entries it leaves.
\<close>

definition memoryMerge ::
  "int \<Rightarrow> int \<Rightarrow> int \<Rightarrow> LeaderboardEntry \<Rightarrow> LeaderboardEntry list \<Rightarrow> bool \<times> LeaderboardEntry list"
where
  "memoryMerge userID percentage score new entries =
     (case memoryLoop userID percentage score new entries of
        Some entries' \<Rightarrow> (True, entries')
      | None \<Rightarrow> (True, entries @ [new]))"

definition MemoryAddEntry ::
  "string \<Rightarrow> int \<Rightarrow> string \<Rightarrow> string \<Rightarrow> int \<Rightarrow> int \<Rightarrow> LeaderboardEntry list
     \<Rightarrow> panic + (bool \<times> LeaderboardEntry list)"
where
  "MemoryAddEntry now userID username firstName score total' entries =
     (case go_div (go_mul score 100) total' of
        Inl p \<Rightarrow> Inl p
      | Inr percentage \<Rightarrow>
          Inr (memoryMerge userID percentage score
                 (newEntry now userID username firstName score total' percentage) entries))"

subsection \<open>GistLeaderboardService\<close>

text \<open>
  The gist is the remote document: its content is the list of entries (the JSON encoding
  and decoding are taken to be inverse to each other). Whether the HTTP GET and the HTTP
  PATCH go through is an input of each operation.
\<close>

datatype httpError = HTTPError

definition loadFromGist :: "bool \<Rightarrow> LeaderboardEntry list \<Rightarrow> httpError + LeaderboardEntry list" where
  "loadFromGist getOK remote = (if getOK then Inr remote else Inl HTTPError)"

text \<open>\<open>saveToGist\<close> returns the new content of the gist.\<close>

definition saveToGist ::
  "bool \<Rightarrow> LeaderboardEntry list \<Rightarrow> LeaderboardEntry list \<Rightarrow> httpError + LeaderboardEntry list"
where
  "saveToGist patchOK leaderboard remote = (if patchOK then Inr leaderboard else Inl HTTPError)"

text \<open>
  The loop of \<open>GistLeaderboardService.AddEntry\<close>, with its \<open>found\<close> flag and its
  \<open>break\<close> at the first entry of the user.
\<close>

fun gistLoop ::
  "int \<Rightarrow> int \<Rightarrow> int \<Rightarrow> LeaderboardEntry \<Rightarrow> LeaderboardEntry list \<Rightarrow> bool \<times> LeaderboardEntry list"
where
  "gistLoop userID percentage score new [] = (False, [])"
| "gistLoop userID percentage score new (entry # rest) =
     (if UserID entry = userID then
        (True,
         (if percentage > Percentage entry \<or> (percentage = Percentage entry \<and> score > Score entry)
          then new # rest
          else entry # rest))
      else (case gistLoop userID percentage score new rest of
              (found, rest') \<Rightarrow> (found, entry # rest')))"

text \<open>Lines 167 to 183: the entries that are handed to \<open>saveToGist\<close>.\<close>

definition gistMerge ::
  "int \<Rightarrow> int \<Rightarrow> int \<Rightarrow> LeaderboardEntry \<Rightarrow> LeaderboardEntry list \<Rightarrow> LeaderboardEntry list"
where
  "gistMerge userID percentage score new entries =
     (case gistLoop userID percentage score new entries of
        (found, entries') \<Rightarrow> (if \<not> found then entries' @ [new] else entries'))"

text \<open>The pair is the boolean the function returns and the content of the gist after it.\<close>

definition GistAddEntry ::
  "string \<Rightarrow> bool \<Rightarrow> bool \<Rightarrow> int \<Rightarrow> string \<Rightarrow> string \<Rightarrow> int \<Rightarrow> int \<Rightarrow> LeaderboardEntry list
     \<Rightarrow> panic + (bool \<times> LeaderboardEntry list)"
where
  "GistAddEntry now getOK patchOK userID username firstName score total' remote =
     (case loadFromGist getOK remote of
        Inl err \<Rightarrow> Inr (False, remote)
      | Inr leaderboard \<Rightarrow>
          (case go_div (go_mul score 100) total' of
             Inl p \<Rightarrow> Inl p
           | Inr percentage \<Rightarrow>
               (case saveToGist patchOK
                       (gistMerge userID percentage score
                          (newEntry now userID username firstName score total' percentage)
                          leaderboard)
                       remote of
                  Inl err \<Rightarrow> Inr (False, remote)
                | Inr remote' \<Rightarrow> Inr (True, remote'))))"

subsection \<open>Ranking\<close>

text \<open>The \<open>less\<close> function that both \<open>GetTop\<close> hand to \<open>sort.Slice\<close>.\<close>

definition lessEntry :: "LeaderboardEntry \<Rightarrow> LeaderboardEntry \<Rightarrow> bool" where
  "lessEntry a b =
     (if Percentage a = Percentage b then Score a > Score b else Percentage a > Percentage b)"

text \<open>
  \<open>sort.Slice\<close> is the standard library's: the functions below take it as the parameter
  \<open>srt\<close>. What Go documents of it is \<open>sortSliceContract\<close>: the result is a
  rearrangement of the slice in which no element is \<open>less\<close> than one before it; the sort
  is not stable, so nothing is said about the order of equal elements.
\<close>

definition sortSliceContract :: "(LeaderboardEntry list \<Rightarrow> LeaderboardEntry list) \<Rightarrow> bool" where
  "sortSliceContract srt =
     (\<forall>xs. mset (srt xs) = mset xs \<and> sorted_wrt (\<lambda>a b. \<not> lessEntry b a) (srt xs))"

text \<open>One sort that meets the contract, for running the model: insertion sort.\<close>

fun insertEntry :: "LeaderboardEntry \<Rightarrow> LeaderboardEntry list \<Rightarrow> LeaderboardEntry list" where
  "insertEntry x [] = [x]"
| "insertEntry x (y # ys) = (if lessEntry x y then x # y # ys else y # insertEntry x ys)"

definition insertionSort :: "LeaderboardEntry list \<Rightarrow> LeaderboardEntry list" where
  "insertionSort xs = foldr insertEntry xs []"

text \<open>\<open>sorted[:limit]\<close>, after the clamp from above: a negative \<open>limit\<close> panics.\<close>

definition sliceTo :: "'a list \<Rightarrow> int \<Rightarrow> panic + 'a list" where
  "sliceTo xs limit =
     (if 0 \<le> limit \<and> limit \<le> int (length xs) then Inr (take (nat limit) xs)
      else Inl SliceBoundsOutOfRange)"

definition MemoryGetTop ::
  "(LeaderboardEntry list \<Rightarrow> LeaderboardEntry list) \<Rightarrow> int \<Rightarrow> LeaderboardEntry list
     \<Rightarrow> panic + LeaderboardEntry list"
where
  "MemoryGetTop srt limit entries =
     (let sortedEntries = srt entries;
          limit' = (if limit > int (length sortedEntries) then int (length sortedEntries) else limit)
      in sliceTo sortedEntries limit')"

text \<open>A failed load makes \<open>GetTop\<close> return \<open>nil\<close>, the empty slice.\<close>

definition GistGetTop ::
  "(LeaderboardEntry list \<Rightarrow> LeaderboardEntry list) \<Rightarrow> bool \<Rightarrow> int \<Rightarrow> LeaderboardEntry list
     \<Rightarrow> panic + LeaderboardEntry list"
where
  "GistGetTop srt getOK limit remote =
     (case loadFromGist getOK remote of
        Inl err \<Rightarrow> Inr []
      | Inr leaderboard \<Rightarrow>
          (let sortedEntries = srt leaderboard;
               limit' = (if limit > int (length sortedEntries) then int (length sortedEntries) else limit)
           in sliceTo sortedEntries limit'))"

text \<open>
  The loop of both \<open>GetUserPosition\<close>: \<open>i\<close> is the index of the head of the list.
  The pointer result is an option.
\<close>

fun positionLoop :: "int \<Rightarrow> int \<Rightarrow> LeaderboardEntry list \<Rightarrow> int \<times> LeaderboardEntry option" where
  "positionLoop userID i [] = (-1, None)"
| "positionLoop userID i (entry # rest) =
     (if UserID entry = userID then (i + 1, Some entry) else positionLoop userID (i + 1) rest)"

definition MemoryGetUserPosition ::
  "(LeaderboardEntry list \<Rightarrow> LeaderboardEntry list) \<Rightarrow> int \<Rightarrow> LeaderboardEntry list
     \<Rightarrow> panic + (int \<times> LeaderboardEntry option)"
where
  "MemoryGetUserPosition srt userID entries =
     (case MemoryGetTop srt (int (length entries)) entries of
        Inl p \<Rightarrow> Inl p
      | Inr top' \<Rightarrow> Inr (positionLoop userID 0 top'))"

text \<open>
  The gist service loads twice: \<open>GetTop(1000)\<close> for the length, then \<open>GetTop\<close> of that
  length. \<open>getOK1\<close> and \<open>getOK2\<close> are the outcomes of the two GETs.
\<close>

definition GistGetUserPosition ::
  "(LeaderboardEntry list \<Rightarrow> LeaderboardEntry list) \<Rightarrow> bool \<Rightarrow> bool \<Rightarrow> int \<Rightarrow> LeaderboardEntry list
     \<Rightarrow> panic + (int \<times> LeaderboardEntry option)"
where
  "GistGetUserPosition srt getOK1 getOK2 userID remote =
     (case GistGetTop srt getOK1 1000 remote of
        Inl p \<Rightarrow> Inl p
      | Inr all' \<Rightarrow>
          (case GistGetTop srt getOK2 (int (length all')) remote of
             Inl p \<Rightarrow> Inl p
           | Inr top' \<Rightarrow> Inr (positionLoop userID 0 top')))"

section \<open>Questions (package service)\<close>

record QuizQuestion =
  ID :: int
  Question :: string
  Options :: "string list"
  Correct :: int

text \<open>
  The two option labels and the two default prompts are Russian text with emoji in the
  source. They are written here in Latin letters; no function looks inside them.
\<close>

definition optionLabels :: "string list" where
  "optionLabels = [''Halal'', ''Haram'']"

definition DefaultQuizQuestions :: "QuizQuestion list" where
  "DefaultQuizQuestions =
     [\<lparr>ID = 1, Question = ''Svinina'', Options = optionLabels, Correct = 1\<rparr>,
      \<lparr>ID = 2, Question = ''Kuritsa'', Options = optionLabels, Correct = 0\<rparr>]"

subsection \<open>Strings\<close>

text \<open>
  A Go string is a sequence of bytes, as a \<open>string\<close> of HOL is. The functions of the
  packages \<open>strings\<close> and \<open>strconv\<close> are modelled from their documentation and source.
\<close>

text \<open>
  The runes for which \<open>unicode.IsSpace\<close> holds, each in its UTF-8 encoding: U+0009 to
  U+000D, U+0020, U+0085, U+00A0, U+1680, U+2000 to U+200A, U+2028, U+2029, U+202F, U+205F
  and U+3000.
\<close>

definition spaceRunes :: "string list" where
  "spaceRunes =
     [[CHR 0x09], [CHR 0x0A], [CHR 0x0B], [CHR 0x0C], [CHR 0x0D], [CHR 0x20],
      [CHR 0xC2, CHR 0x85], [CHR 0xC2, CHR 0xA0],
      [CHR 0xE1, CHR 0x9A, CHR 0x80],
      [CHR 0xE2, CHR 0x80, CHR 0x80], [CHR 0xE2, CHR 0x80, CHR 0x81],
      [CHR 0xE2, CHR 0x80, CHR 0x82], [CHR 0xE2, CHR 0x80, CHR 0x83],
      [CHR 0xE2, CHR 0x80, CHR 0x84], [CHR 0xE2, CHR 0x80, CHR 0x85],
      [CHR 0xE2, CHR 0x80, CHR 0x86], [CHR 0xE2, CHR 0x80, CHR 0x87],
      [CHR 0xE2, CHR 0x80, CHR 0x88], [CHR 0xE2, CHR 0x80, CHR 0x89],
      [CHR 0xE2, CHR 0x80, CHR 0x8A],
      [CHR 0xE2, CHR 0x80, CHR 0xA8], [CHR 0xE2, CHR 0x80, CHR 0xA9],
      [CHR 0xE2, CHR 0x80, CHR 0xAF], [CHR 0xE2, CHR 0x81, CHR 0x9F],
      [CHR 0xE3, CHR 0x80, CHR 0x80]]"

text \<open>
  The number of bytes of the white-space rune that a string starts with, and of the one
  it ends with; 0 when the first, or the last, rune is not white space (a byte that is
  not valid UTF-8 decodes to U+FFFD, which is not). No encoding is the start or the end
  of another, so at most one fits.
\<close>

definition spaceWidth :: "string \<Rightarrow> nat" where
  "spaceWidth s =
     (case find (\<lambda>w. take (length w) s = w) spaceRunes of
        None \<Rightarrow> 0
      | Some w \<Rightarrow> length w)"

definition spaceWidthLast :: "string \<Rightarrow> nat" where
  "spaceWidthLast s =
     (case find (\<lambda>w. drop (length s - length w) s = w) spaceRunes of
        None \<Rightarrow> 0
      | Some w \<Rightarrow> length w)"

text \<open>\<open>strings.TrimLeftFunc(s, unicode.IsSpace)\<close> and \<open>strings.TrimRightFunc(s, unicode.IsSpace)\<close>\<close>

function TrimLeft :: "string \<Rightarrow> string" where
  "TrimLeft s = (if spaceWidth s = 0 then s else TrimLeft (drop (spaceWidth s) s))"
  by pat_completeness auto
termination
proof (relation "measure length")
  show "wf (measure length)" by simp
next
  fix s :: string
  assume w: "spaceWidth s \<noteq> 0"
  have "spaceWidth [] = 0" by (simp add: spaceWidth_def spaceRunes_def)
  then have "s \<noteq> []" using w by auto
  then show "(drop (spaceWidth s) s, s) \<in> measure length" using w by simp
qed

function TrimRight :: "string \<Rightarrow> string" where
  "TrimRight s =
     (if spaceWidthLast s = 0 then s else TrimRight (take (length s - spaceWidthLast s) s))"
  by pat_completeness auto
termination
proof (relation "measure length")
  show "wf (measure length)" by simp
next
  fix s :: string
  assume w: "spaceWidthLast s \<noteq> 0"
  have "spaceWidthLast [] = 0" by (simp add: spaceWidthLast_def spaceRunes_def)
  then have "s \<noteq> []" using w by auto
  then show "(take (length s - spaceWidthLast s) s, s) \<in> measure length" using w by simp
qed

declare TrimLeft.simps [simp del]

declare TrimRight.simps [simp del]

text \<open>
  \<open>strings.TrimSpace\<close> takes the white space of Unicode off both ends. (Its loops over
  the bytes of ASCII are a fast path with the same result.)
\<close>

definition TrimSpace :: "string \<Rightarrow> string" where
  "TrimSpace s = TrimRight (TrimLeft s)"

text \<open>\<open>strings.Index(s, c)\<close> for a separator of one byte: the first position, or -1.\<close>

fun Index :: "string \<Rightarrow> char \<Rightarrow> int" where
  "Index [] c = -1"
| "Index (x # xs) c =
     (if x = c then 0 else (let i = Index xs c in if i < 0 then -1 else i + 1))"

text \<open>\<open>strings.Split(s, sep)\<close> for a separator of one byte.\<close>

fun Split :: "string \<Rightarrow> char \<Rightarrow> string list" where
  "Split [] sep = [[]]"
| "Split (c # cs) sep =
     (if c = sep then [] # Split cs sep
      else (case Split cs sep of [] \<Rightarrow> [[c]] | p # ps \<Rightarrow> (c # p) # ps))"

definition isDigit :: "char \<Rightarrow> bool" where
  "isDigit c = ((48::nat) \<le> of_char c \<and> of_char c \<le> (57::nat))"

definition digitVal :: "char \<Rightarrow> int" where
  "digitVal c = int (of_char c) - 48"

fun digitsValue :: "int \<Rightarrow> string \<Rightarrow> int" where
  "digitsValue n [] = n"
| "digitsValue n (c # cs) = digitsValue (n * 10 + digitVal c) cs"

text \<open>
  \<open>strconv.Atoi\<close>: the value and whether the error is \<open>nil\<close>. A syntax error comes with
  the value 0, a value out of range with the nearest \<open>int\<close>.
\<close>

definition Atoi :: "string \<Rightarrow> int \<times> bool" where
  "Atoi s =
     (let neg = (s \<noteq> [] \<and> hd s = CHR ''-'');
          signed = (s \<noteq> [] \<and> (hd s = CHR ''-'' \<or> hd s = CHR ''+''));
          digits = (if signed then tl s else s)
      in if digits \<noteq> [] \<and> list_all isDigit digits then
           (let n = digitsValue 0 digits;
                v = (if neg then - n else n)
            in if v > 2 ^ 63 - 1 then (2 ^ 63 - 1, False)
               else if v < - (2 ^ 63) then (- (2 ^ 63), False)
               else (v, True))
         else (0, False))"

subsection \<open>ParseQuizQuestions and LoadQuizQuestions\<close>

datatype lineError =
  NoClosingQuote | NoIndicator | InvalidIndicator | NotZeroOrOne int | EmptyQuestion

datatype loadError = OpenFailed | LineError string lineError | ReadError | NoQuestions

definition quote :: char where
  "quote = CHR 0x22"

text \<open>
  \<open>parseQuestionLine\<close> is called on a line that is not empty. \<open>string(remaining[0])\<close> is
  the one byte for a byte of ASCII, and for any other byte a string that \<open>Atoi\<close> refuses
  as it refuses the byte. \<open>utf8.RuneCountInString\<close> is 0 for the empty string only.
\<close>

definition parseQuestionLine :: "string \<Rightarrow> lineError + (string \<times> int)" where
  "parseQuestionLine line =
     (let quoteEnd = Index (drop 1 line) quote + 1 in
      if quoteEnd \<le> 0 then Inl NoClosingQuote
      else
        (let question = drop 1 (take (nat quoteEnd) line);
             remaining = TrimSpace (drop (nat quoteEnd + 1) line)
         in if length remaining = 0 then Inl NoIndicator
            else (case Atoi [hd remaining] of
                    (correct, ok) \<Rightarrow>
                      if \<not> ok then Inl InvalidIndicator
                      else if correct \<noteq> 0 \<and> correct \<noteq> 1 then Inl (NotZeroOrOne correct)
                      else if length question = 0 then Inl EmptyQuestion
                      else Inr (question, correct))))"

text \<open>
  The file as the program sees it: it cannot be opened, or the scanner yields lines and
  then stops, with an error or without.
\<close>

datatype questionFile = OpenFails | Scanned "string list" bool

text \<open>The loop over \<open>scanner.Scan()\<close>, with its variables \<open>questionID\<close> and \<open>questions\<close>.\<close>

fun scanLoop :: "int \<Rightarrow> QuizQuestion list \<Rightarrow> string list \<Rightarrow> loadError + QuizQuestion list" where
  "scanLoop questionID questions [] = Inr questions"
| "scanLoop questionID questions (text # rest) =
     (let line = TrimSpace text in
      if line = [] then scanLoop questionID questions rest
      else (case parseQuestionLine line of
              Inl err \<Rightarrow> Inl (LineError line err)
            | Inr (question, correct) \<Rightarrow>
                scanLoop (questionID + 1)
                  (questions @ [\<lparr>ID = questionID, Question = question,
                                  Options = optionLabels, Correct = correct\<rparr>])
                  rest))"

fun ParseQuizQuestions :: "questionFile \<Rightarrow> loadError + QuizQuestion list" where
  "ParseQuizQuestions OpenFails = Inl OpenFailed"
| "ParseQuizQuestions (Scanned lines scanErr) =
     (case scanLoop 1 [] lines of
        Inl err \<Rightarrow> Inl err
      | Inr questions \<Rightarrow>
          if scanErr then Inl ReadError
          else if length questions = 0 then Inl NoQuestions
          else Inr questions)"

definition LoadQuizQuestions :: "questionFile \<Rightarrow> QuizQuestion list" where
  "LoadQuizQuestions file =
     (case ParseQuizQuestions file of
        Inl err \<Rightarrow> DefaultQuizQuestions
      | Inr questions \<Rightarrow> questions)"

text \<open>
  What the specification calls a malformed line, for a line that is trimmed and not
  blank. The closing quote is the first quote after the first character of the line.
\<close>

definition missingClosingQuote :: "string \<Rightarrow> bool" where
  "missingClosingQuote line = (quote \<notin> set (drop 1 line))"

definition afterClosingQuote :: "string \<Rightarrow> string" where
  "afterClosingQuote line = drop 1 (dropWhile (\<lambda>c. c \<noteq> quote) (drop 1 line))"

definition missingDigit :: "string \<Rightarrow> bool" where
  "missingDigit line = (TrimSpace (afterClosingQuote line) = [])"

definition invalidDigit :: "string \<Rightarrow> bool" where
  "invalidDigit line =
     (case TrimSpace (afterClosingQuote line) of
        [] \<Rightarrow> False
      | c # rest \<Rightarrow> c \<noteq> CHR ''0'' \<and> c \<noteq> CHR ''1'')"

definition emptyQuestionText :: "string \<Rightarrow> bool" where
  "emptyQuestionText line = (takeWhile (\<lambda>c. c \<noteq> quote) (drop 1 line) = [])"

definition malformedLine :: "string \<Rightarrow> bool" where
  "malformedLine line =
     (missingClosingQuote line \<or> missingDigit line \<or> invalidDigit line \<or> emptyQuestionText line)"

subsection \<open>ShuffleQuestions\<close>

text \<open>
  \<open>ShuffleQuestions\<close> writes into a slice, so the slices live in a store: \<open>arrays\<close> maps
  the address of a backing array to its elements, \<open>fresh\<close> is the next address that
  \<open>make\<close> hands out. A slice is the address of its array (every slice here spans its
  whole array).
\<close>

record 'a store =
  arrays :: "nat \<Rightarrow> 'a list option"
  fresh :: nat

text \<open>\<open>shuffled[i], shuffled[j] = shuffled[j], shuffled[i]\<close>\<close>

definition swapAt :: "'a store \<Rightarrow> nat \<Rightarrow> nat \<Rightarrow> nat \<Rightarrow> 'a store" where
  "swapAt st a i j =
     (case arrays st a of
        None \<Rightarrow> st
      | Some xs \<Rightarrow> st\<lparr>arrays := (arrays st)(a \<mapsto> xs[i := xs ! j, j := xs ! i])\<rparr>)"

text \<open>
  The loop \<open>for i := len(shuffled) - 1; i > 0; i--\<close>. \<open>rnd i\<close> is the number the
  generator draws in the iteration of index \<open>i\<close>; \<open>r.Intn(i + 1)\<close> brings it into the
  range from 0 to \<open>i\<close>, so both indices of the swap are inside the slice.
\<close>

fun shuffleLoop :: "(nat \<Rightarrow> nat) \<Rightarrow> nat \<Rightarrow> nat \<Rightarrow> 'a store \<Rightarrow> 'a store" where
  "shuffleLoop rnd shuffled 0 st = st"
| "shuffleLoop rnd shuffled (Suc i) st =
     (let j = rnd (Suc i) mod (Suc i + 1)
      in shuffleLoop rnd shuffled i (swapAt st shuffled (Suc i) j))"

text \<open>
  The result is the store after the call and the slice returned. A slice that is not in
  the store is \<open>nil\<close>.
\<close>

definition ShuffleQuestions :: "(nat \<Rightarrow> nat) \<Rightarrow> 'a store \<Rightarrow> nat \<Rightarrow> 'a store \<times> nat" where
  "ShuffleQuestions rnd st questions =
     (let elems = (case arrays st questions of None \<Rightarrow> [] | Some xs \<Rightarrow> xs);
          shuffled = fresh st;
          st1 = st\<lparr>arrays := (arrays st)(shuffled \<mapsto> elems), fresh := Suc shuffled\<rparr>
      in (shuffleLoop rnd shuffled (length elems - 1) st1, shuffled))"

text \<open>
  The elements of the slice that \<open>ShuffleQuestions\<close> returns for a slice of elements \<open>xs\<close>,
  for the callers that keep no store.
\<close>

definition shuffledQuestions :: "(nat \<Rightarrow> nat) \<Rightarrow> 'a list \<Rightarrow> 'a list" where
  "shuffledQuestions rnd xs =
     (case ShuffleQuestions rnd \<lparr>arrays = Map.empty(0 \<mapsto> xs), fresh = 1\<rparr> 0 of
        (st, shuffled) \<Rightarrow> (case arrays st shuffled of None \<Rightarrow> [] | Some ys \<Rightarrow> ys))"

section \<open>The bot (internal/telegram/handler.go)\<close>

record QuizSession =
  SessionUserID :: int
  CurrentQuestion :: int
  SessionScore :: int
  Questions :: "QuizQuestion list"

text \<open>\<open>tgbotapi.User\<close>, the three fields that the bot reads.\<close>

record User =
  TgID :: int
  TgUserName :: string
  TgFirstName :: string

text \<open>
  The leaderboard service behind the interface, with its data: the entries in memory, or
  the content of the gist.
\<close>

datatype LeaderboardService =
  MemoryService "LeaderboardEntry list" | GistService "LeaderboardEntry list"

text \<open>
  The state of the bot. The messages it sends through the Telegram API change nothing
  in this state and a failed send is only logged, so sending is left out.
\<close>

record Bot =
  quizSessions :: "int \<Rightarrow> QuizSession option"
  leaderboardService :: LeaderboardService
  quizQuestions :: "QuizQuestion list"

text \<open>What comes from outside during one update: the clock and the outcome of the HTTP calls.\<close>

record Env =
  envNow :: string
  envGetOK :: bool
  envPatchOK :: bool

fun AddEntry ::
  "Env \<Rightarrow> LeaderboardService \<Rightarrow> int \<Rightarrow> string \<Rightarrow> string \<Rightarrow> int \<Rightarrow> int
     \<Rightarrow> panic + (bool \<times> LeaderboardService)"
where
  "AddEntry env (MemoryService entries) userID username firstName score total' =
     (case MemoryAddEntry (envNow env) userID username firstName score total' entries of
        Inl p \<Rightarrow> Inl p
      | Inr (r, entries') \<Rightarrow> Inr (r, MemoryService entries'))"
| "AddEntry env (GistService remote) userID username firstName score total' =
     (case GistAddEntry (envNow env) (envGetOK env) (envPatchOK env)
             userID username firstName score total' remote of
        Inl p \<Rightarrow> Inl p
      | Inr (r, remote') \<Rightarrow> Inr (r, GistService remote'))"

definition sendQuestion :: "int \<Rightarrow> int \<Rightarrow> Bot \<Rightarrow> panic + Bot" where
  "sendQuestion chatID questionIndex b =
     (case quizSessions b chatID of
        None \<Rightarrow> Inr b
      | Some session \<Rightarrow>
          if questionIndex \<ge> int (length (Questions session)) then Inr b
          else (case index (Questions session) questionIndex of
                  Inl p \<Rightarrow> Inl p
                | Inr question \<Rightarrow> Inr b))"

definition startQuiz :: "(nat \<Rightarrow> nat) \<Rightarrow> int \<Rightarrow> Bot \<Rightarrow> panic + Bot" where
  "startQuiz rnd chatID b =
     (let shuffledQuestions' = shuffledQuestions rnd (quizQuestions b);
          session = \<lparr>SessionUserID = chatID, CurrentQuestion = 0, SessionScore = 0,
                     Questions = shuffledQuestions'\<rparr>
      in sendQuestion chatID 0 (b\<lparr>quizSessions := (quizSessions b)(chatID \<mapsto> session)\<rparr>))"

text \<open>
  \<open>finishQuiz\<close>. When \<open>AddEntry\<close> reports a new best, the source asks \<open>GetUserPosition\<close>
  for the rank it prints: a read that changes no state.
\<close>

definition finishQuiz :: "Env \<Rightarrow> int \<Rightarrow> bool \<Rightarrow> User \<Rightarrow> Bot \<Rightarrow> panic + Bot" where
  "finishQuiz env chatID exited user b =
     (case quizSessions b chatID of
        None \<Rightarrow> Inr b
      | Some session \<Rightarrow>
          (let b1 = b\<lparr>quizSessions := (quizSessions b)(chatID := None)\<rparr> in
           if exited then Inr b1
           else
             (case go_div (go_mul (SessionScore session) 100) (int (length (Questions session))) of
                Inl p \<Rightarrow> Inl p
              | Inr percentage \<Rightarrow>
                  (case AddEntry env (leaderboardService b1) (TgID user) (TgUserName user)
                          (TgFirstName user) (SessionScore session)
                          (int (length (Questions session))) of
                     Inl p \<Rightarrow> Inl p
                   | Inr (isNewBest, service) \<Rightarrow> Inr (b1\<lparr>leaderboardService := service\<rparr>)))))"

text \<open>
  Lines 178 to 195 of \<open>handleQuizAnswer\<close>: what an answer does to the session it finds.
\<close>

definition answerSession :: "QuizSession \<Rightarrow> int \<Rightarrow> int \<Rightarrow> panic + QuizSession" where
  "answerSession session questionIndex answerIndex =
     (case index (Questions session) questionIndex of
        Inl p \<Rightarrow> Inl p
      | Inr question \<Rightarrow>
          (let isCorrect = (answerIndex = Correct question) in
           if isCorrect then
             Inr (session\<lparr>SessionScore := SessionScore session + 1,
                          CurrentQuestion := CurrentQuestion session + 1\<rparr>)
           else
             (case index (Options question) (Correct question) of
                Inl p \<Rightarrow> Inl p
              | Inr correctAnswer \<Rightarrow>
                  Inr (session\<lparr>CurrentQuestion := CurrentQuestion session + 1\<rparr>))))"

text \<open>The errors of the two \<open>Atoi\<close> are dropped, as in the source.\<close>

definition handleQuizAnswer :: "Env \<Rightarrow> int \<Rightarrow> string \<Rightarrow> User \<Rightarrow> Bot \<Rightarrow> panic + Bot" where
  "handleQuizAnswer env chatID data user b =
     (let parts = Split data (CHR ''_'') in
      if length parts \<noteq> 3 then Inr b
      else
        (let questionIndex = fst (Atoi (parts ! 1));
             answerIndex = fst (Atoi (parts ! 2))
         in case quizSessions b chatID of
              None \<Rightarrow> Inr b
            | Some session \<Rightarrow>
                (case answerSession session questionIndex answerIndex of
                   Inl p \<Rightarrow> Inl p
                 | Inr session' \<Rightarrow>
                     (let b' = b\<lparr>quizSessions := (quizSessions b)(chatID \<mapsto> session')\<rparr> in
                      if CurrentQuestion session' < int (length (Questions session'))
                      then sendQuestion chatID (CurrentQuestion session') b'
                      else finishQuiz env chatID False user b'))))"



section \<open>Sample data\<close>

text \<open>Entries and boards on which the theorems below are run.\<close>

definition stored70 :: LeaderboardEntry where
  "stored70 = newEntry ''01.01.2025 10:00'' 1 ''user'' ''User'' 7 10 70"

text \<open>
  The stored entry of the examples (7 of 10, 70 percent), and an entry with percentage
  70 and score 9.
\<close>

definition stored7of10 :: LeaderboardEntry where
  "stored7of10 =
     \<lparr>UserID = 1, Username = ''user'', FirstName = ''User'', Score = 7, Total = 10,
      Percentage = 70, Date = ''01.01.2025 10:00''\<rparr>"

definition submitted70and9 :: LeaderboardEntry where
  "submitted70and9 =
     \<lparr>UserID = 1, Username = ''user'', FirstName = ''User'', Score = 9, Total = 13,
      Percentage = 70, Date = ''t''\<rparr>"

definition board3 :: "LeaderboardEntry list" where
  "board3 = [newEntry ''d1'' 2 ''b'' ''B'' 7 10 70, newEntry ''d2'' 1 ''a'' ''A'' 8 10 80,
             newEntry ''d3'' 3 ''c'' ''C'' 9 10 90]"

text \<open>A store that holds the default questions at address 0.\<close>

definition store1 :: "QuizQuestion store" where
  "store1 = \<lparr>arrays = Map.empty(0 \<mapsto> DefaultQuizQuestions), fresh = 1\<rparr>"

text \<open>Lines of a question file; the third has no closing quote.\<close>

definition porkLine :: string where
  "porkLine = quote # ''Pork'' @ quote # '' 1''"

definition chickenLine :: string where
  "chickenLine = quote # ''Chicken'' @ quote # '' 0''"

definition brokenLine :: string where
  "brokenLine = ''  '' @ quote # ''Chicken 0''"

text \<open>A line with a no-break space (U+00A0) between quote and digit, and a line of white space beyond ASCII.\<close>

definition nbspLine :: string where
  "nbspLine = quote # ''Pork'' @ quote # [CHR 0xC2, CHR 0xA0] @ ''1''"

definition blankLine :: string where
  "blankLine = [CHR 0xC2, CHR 0xA0, CHR 0x20, CHR 0xE3, CHR 0x80, CHR 0x80]"

text \<open>
  A bot without sessions, and the same bot after chat 1 has started a quiz whose shuffle
  put the second default question first.
\<close>

definition session1 :: QuizSession where
  "session1 = \<lparr>SessionUserID = 1, CurrentQuestion = 0, SessionScore = 0,
                Questions = rev DefaultQuizQuestions\<rparr>"

definition bot0 :: Bot where
  "bot0 = \<lparr>quizSessions = Map.empty, leaderboardService = MemoryService [],
            quizQuestions = DefaultQuizQuestions\<rparr>"

definition bot1 :: Bot where
  "bot1 = bot0\<lparr>quizSessions := Map.empty(1 \<mapsto> session1)\<rparr>"

definition env1 :: Env where
  "env1 = \<lparr>envNow = ''02.01.2025 12:00'', envGetOK = True, envPatchOK = True\<rparr>"

definition user1 :: User where
  "user1 = \<lparr>TgID = 7, TgUserName = ''user'', TgFirstName = ''User''\<rparr>"

section \<open>Properties of the leaderboard\<close>

subsection \<open>The merge loops\<close>

lemma memoryLoop_absent:
  "\<forall>x\<in>set es. UserID x \<noteq> userID \<Longrightarrow> memoryLoop userID p s new es = None"
  by (induction es) auto

lemma memoryLoop_present:
  "\<forall>x\<in>set pre. UserID x \<noteq> userID \<Longrightarrow> UserID stored = userID \<Longrightarrow>
   memoryLoop userID p s new (pre @ stored # post) =
     Some (pre @ (if p > Percentage stored \<or> (p = Percentage stored \<and> s > Score stored)
                  then new else stored) # post)"
  by (induction pre) auto

lemma gistLoop_absent:
  "\<forall>x\<in>set es. UserID x \<noteq> userID \<Longrightarrow> gistLoop userID p s new es = (False, es)"
  by (induction es) auto

lemma gistLoop_present:
  "\<forall>x\<in>set pre. UserID x \<noteq> userID \<Longrightarrow> UserID stored = userID \<Longrightarrow>
   gistLoop userID p s new (pre @ stored # post) =
     (True, pre @ (if p > Percentage stored \<or> (p = Percentage stored \<and> s > Score stored)
                  then new else stored) # post)"
  by (induction pre) auto

lemma wrap64_id: "- (2^63) \<le> x \<Longrightarrow> x < 2^63 \<Longrightarrow> wrap64 x = x"
  unfolding wrap64_def by (simp add: mod_pos_pos_trivial)

lemma go_percentage:
  assumes "0 < t" "0 \<le> s" "s * 100 < 2^63"
  shows "go_div (go_mul s 100) t = Inr (s * 100 div t)"
proof -
  have m: "go_mul s 100 = s * 100" using assms by (simp add: go_mul_def wrap64_id)
  have "0 \<le> s * 100 div t" using assms by (simp add: pos_imp_zdiv_nonneg_iff)
  moreover have "s * 100 div t \<le> s * 100" using assms
    by (metis div_by_1 int_one_le_iff_zero_less mult_nonneg_nonneg zdiv_mono2 zero_le_numeral zero_less_one)
  ultimately have w: "wrap64 (s * 100 div t) = s * 100 div t" using assms by (intro wrap64_id) auto
  show ?thesis using assms m w by (cases "s = 0") (auto simp: go_div_def sgn_if)
qed

subsection \<open>Sorting and ranking\<close>

lemma set_insertEntry: "set (insertEntry x ys) = insert x (set ys)"
  by (induction ys) auto

lemma mset_insertEntry: "mset (insertEntry x ys) = add_mset x (mset ys)"
  by (induction ys) auto

lemma not_less_trans:
  "\<not> lessEntry b a \<Longrightarrow> \<not> lessEntry c b \<Longrightarrow> \<not> lessEntry c a"
  by (auto simp: lessEntry_def split: if_splits)

lemma sorted_insertEntry:
  "sorted_wrt (\<lambda>a b. \<not> lessEntry b a) ys \<Longrightarrow>
   sorted_wrt (\<lambda>a b. \<not> lessEntry b a) (insertEntry x ys)"
proof (induction ys)
  case Nil
  then show ?case by simp
next
  case (Cons y ys)
  show ?case
  proof (cases "lessEntry x y")
    case True
    have "\<not> lessEntry y x" using True by (auto simp: lessEntry_def split: if_splits)
    moreover have "\<forall>z\<in>set ys. \<not> lessEntry z x"
    proof
      fix z assume "z \<in> set ys"
      then have "\<not> lessEntry z y" using Cons.prems by auto
      with \<open>\<not> lessEntry y x\<close> show "\<not> lessEntry z x" by (rule not_less_trans)
    qed
    ultimately show ?thesis using True Cons.prems by simp
  next
    case False
    then show ?thesis using Cons by (auto simp: set_insertEntry)
  qed
qed

lemma mset_insertionSort: "mset (insertionSort xs) = mset xs"
  unfolding insertionSort_def by (induction xs) (auto simp: mset_insertEntry)

lemma sorted_insertionSort: "sorted_wrt (\<lambda>a b. \<not> lessEntry b a) (insertionSort xs)"
  unfolding insertionSort_def by (induction xs) (auto simp: sorted_insertEntry)

lemma insertionSort_contract: "sortSliceContract insertionSort"
  by (simp add: sortSliceContract_def mset_insertionSort sorted_insertionSort)

lemma contract_length: "sortSliceContract srt \<Longrightarrow> length (srt xs) = length xs"
  by (metis sortSliceContract_def size_mset)

lemma contract_set: "sortSliceContract srt \<Longrightarrow> set (srt xs) = set xs"
  by (metis sortSliceContract_def set_mset_mset)

lemma contract_sorted:
  "sortSliceContract srt \<Longrightarrow>
   sorted_wrt (\<lambda>a b. Percentage a > Percentage b \<or> (Percentage a = Percentage b \<and> Score a \<ge> Score b)) (srt xs)"
proof -
  assume c: "sortSliceContract srt"
  have "sorted_wrt (\<lambda>a b. \<not> lessEntry b a) (srt xs)" using c by (simp add: sortSliceContract_def)
  then show ?thesis
    by (rule sorted_wrt_mono_rel[rotated]) (auto simp: lessEntry_def split: if_splits)
qed

lemma sliceTo_ok: "0 \<le> l \<Longrightarrow> l \<le> int (length xs) \<Longrightarrow> sliceTo xs l = Inr (take (nat l) xs)"
  by (simp add: sliceTo_def)

lemma MemoryGetTop_eq:
  assumes "sortSliceContract srt" "0 \<le> limit"
  shows "MemoryGetTop srt limit entries = Inr (take (nat limit) (srt entries))"
  using assms by (auto simp: MemoryGetTop_def Let_def sliceTo_def contract_length)

lemma GistGetTop_eq:
  assumes "sortSliceContract srt" "0 \<le> limit"
  shows "GistGetTop srt getOK limit remote = Inr (if getOK then take (nat limit) (srt remote) else [])"
  using assms by (auto simp: GistGetTop_def loadFromGist_def Let_def sliceTo_def contract_length)

lemma sorted_wrt_take: "sorted_wrt P xs \<Longrightarrow> sorted_wrt P (take n xs)"
  by (metis append_take_drop_id sorted_wrt_append)

lemma positionLoop_absent:
  "\<forall>x\<in>set es. UserID x \<noteq> u \<Longrightarrow> positionLoop u i es = (-1, None)"
  by (induction es arbitrary: i) auto

lemma positionLoop_present:
  "\<forall>x\<in>set pre. UserID x \<noteq> u \<Longrightarrow> UserID e = u \<Longrightarrow>
   positionLoop u i (pre @ e # post) = (i + int (length pre) + 1, Some e)"
  by (induction pre arbitrary: i) auto

lemma first_match_split:
  "\<exists>x\<in>set xs. P x \<Longrightarrow> \<exists>pre e post. xs = pre @ e # post \<and> P e \<and> (\<forall>x\<in>set pre. \<not> P x)"
  by (metis split_list_first_prop)

subsection \<open>AddEntry\<close>

lemma memoryMerge_absent:
  "\<forall>x\<in>set es. UserID x \<noteq> userID \<Longrightarrow> memoryMerge userID p s e es = (True, es @ [e])"
  by (simp add: memoryMerge_def memoryLoop_absent)

lemma memoryMerge_present:
  "\<forall>x\<in>set pre. UserID x \<noteq> userID \<Longrightarrow> UserID stored = userID \<Longrightarrow>
   memoryMerge userID p s e (pre @ stored # post) =
     (True, pre @ (if p > Percentage stored \<or> (p = Percentage stored \<and> s > Score stored)
                   then e else stored) # post)"
  by (simp add: memoryMerge_def memoryLoop_present)

lemma gistMerge_absent:
  "\<forall>x\<in>set es. UserID x \<noteq> userID \<Longrightarrow> gistMerge userID p s e es = es @ [e]"
  by (simp add: gistMerge_def gistLoop_absent)

lemma gistMerge_present:
  "\<forall>x\<in>set pre. UserID x \<noteq> userID \<Longrightarrow> UserID stored = userID \<Longrightarrow>
   gistMerge userID p s e (pre @ stored # post) =
     pre @ (if p > Percentage stored \<or> (p = Percentage stored \<and> s > Score stored)
            then e else stored) # post"
  by (simp add: gistMerge_def gistLoop_present)

lemma MemoryAddEntry_merge:
  "go_div (go_mul score 100) total' = Inr percentage \<Longrightarrow>
   MemoryAddEntry now userID username firstName score total' entries =
     Inr (memoryMerge userID percentage score
            (newEntry now userID username firstName score total' percentage) entries)"
  by (simp add: MemoryAddEntry_def)

lemma GistAddEntry_merge:
  "go_div (go_mul score 100) total' = Inr percentage \<Longrightarrow>
   GistAddEntry now True True userID username firstName score total' remote =
     Inr (True, gistMerge userID percentage score
            (newEntry now userID username firstName score total' percentage) remote)"
  by (simp add: GistAddEntry_def loadFromGist_def saveToGist_def)

lemma GistAddEntry_failed:
  "go_div (go_mul score 100) total' = Inr percentage \<Longrightarrow> \<not> (getOK \<and> patchOK) \<Longrightarrow>
   GistAddEntry now getOK patchOK userID username firstName score total' remote =
     Inr (False, remote)"
  by (auto simp add: GistAddEntry_def loadFromGist_def saveToGist_def)

text \<open>
  Claim C1, as stated, fails in two places: when the load or the save of the gist
  service fails, a submission of 80 percent does not replace the stored 70 percent; and
  with a total of 0 the call panics, so that a user without an entry is not inserted.
\<close>
theorem C1_counterexample:
  "Percentage stored7of10 = 70 \<and> UserID stored7of10 = 1
   \<and> go_div (go_mul 4 100) 5 = Inr 80
   \<and> GistAddEntry ''t'' False True 1 ''user'' ''User'' 4 5 [stored7of10] =
       Inr (False, [stored7of10])
   \<and> GistAddEntry ''t'' True False 1 ''user'' ''User'' 4 5 [stored7of10] =
       Inr (False, [stored7of10])
   \<and> MemoryAddEntry ''t'' 2 ''b'' ''B'' 0 0 [stored7of10] = Inl DivideByZero"
  by (simp add: GistAddEntry_def MemoryAddEntry_def loadFromGist_def saveToGist_def
      go_div_def go_mul_def wrap64_def stored7of10_def)

text \<open>
  Claim C1 (best-wins merge), amended. Take any call of \<open>AddEntry\<close> whose percentage is
  computed (the total is not 0), on the memory service or on the gist service with its
  load and its save going through, and let the new entry be the one that carries the
  user, the names, the score, the total, that percentage and the date of the call. A
  user without an entry gets the new entry appended. Otherwise the first entry of the
  user is replaced by the new entry exactly when the new percentage is greater, or equal
  with a greater score; when it is not, the entry stays, and every other entry stays in
  either case. When the load or the save of the gist service fails, the call returns
  false and the gist keeps its content. The last two conjuncts are the same rule for the
  loops of the two services, for any percentage and score that the new entry carries.
\<close>
theorem C1_best_wins_merge:
  "(go_div (go_mul score 100) total' = Inr percentage \<longrightarrow>
      ((\<forall>x\<in>set entries. UserID x \<noteq> userID) \<longrightarrow>
         MemoryAddEntry now userID username firstName score total' entries =
           Inr (True, entries @
                  [\<lparr>UserID = userID, Username = username, FirstName = firstName,
                     Score = score, Total = total', Percentage = percentage, Date = now\<rparr>])
         \<and> GistAddEntry now True True userID username firstName score total' entries =
             Inr (True, entries @
                    [\<lparr>UserID = userID, Username = username, FirstName = firstName,
                       Score = score, Total = total', Percentage = percentage, Date = now\<rparr>]))
      \<and> ((\<forall>x\<in>set pre. UserID x \<noteq> userID) \<and> UserID stored = userID \<longrightarrow>
           MemoryAddEntry now userID username firstName score total' (pre @ stored # post) =
             Inr (True, pre @
                    (if percentage > Percentage stored
                        \<or> (percentage = Percentage stored \<and> score > Score stored)
                     then \<lparr>UserID = userID, Username = username, FirstName = firstName,
                            Score = score, Total = total', Percentage = percentage, Date = now\<rparr>
                     else stored) # post)
           \<and> GistAddEntry now True True userID username firstName score total'
                 (pre @ stored # post) =
               Inr (True, pre @
                      (if percentage > Percentage stored
                          \<or> (percentage = Percentage stored \<and> score > Score stored)
                       then \<lparr>UserID = userID, Username = username, FirstName = firstName,
                              Score = score, Total = total', Percentage = percentage, Date = now\<rparr>
                       else stored) # post))
      \<and> (\<not> (getOK \<and> patchOK) \<longrightarrow>
           GistAddEntry now getOK patchOK userID username firstName score total' entries =
             Inr (False, entries)))
   \<and> (UserID new = userID \<and> Percentage new = percentage \<and> Score new = score
        \<and> (\<forall>x\<in>set entries. UserID x \<noteq> userID) \<longrightarrow>
        memoryMerge userID percentage score new entries = (True, entries @ [new])
        \<and> gistMerge userID percentage score new entries = entries @ [new])
   \<and> (UserID new = userID \<and> Percentage new = percentage \<and> Score new = score
        \<and> (\<forall>x\<in>set pre. UserID x \<noteq> userID) \<and> UserID stored = userID \<longrightarrow>
        memoryMerge userID percentage score new (pre @ stored # post) =
          (True, pre @ (if percentage > Percentage stored
                           \<or> (percentage = Percentage stored \<and> score > Score stored)
                        then new else stored) # post)
        \<and> gistMerge userID percentage score new (pre @ stored # post) =
            pre @ (if percentage > Percentage stored
                      \<or> (percentage = Percentage stored \<and> score > Score stored)
                   then new else stored) # post)"
proof -
  let ?new = "\<lparr>UserID = userID, Username = username, FirstName = firstName,
                Score = score, Total = total', Percentage = percentage, Date = now\<rparr>"
  have n: "newEntry now userID username firstName score total' percentage = ?new"
    by (simp add: newEntry_def)
  have add: "MemoryAddEntry now userID username firstName score total' es =
               Inr (memoryMerge userID percentage score ?new es)
             \<and> GistAddEntry now True True userID username firstName score total' es =
               Inr (True, gistMerge userID percentage score ?new es)"
    if "go_div (go_mul score 100) total' = Inr percentage" for es
    using MemoryAddEntry_merge[OF that] GistAddEntry_merge[OF that] by (simp add: n)
  have absent: "memoryMerge userID percentage score e entries = (True, entries @ [e])
        \<and> gistMerge userID percentage score e entries = entries @ [e]"
    if "\<forall>x\<in>set entries. UserID x \<noteq> userID" for e
    using that by (simp add: memoryMerge_absent gistMerge_absent)
  have present: "memoryMerge userID percentage score e (pre @ stored # post) =
          (True, pre @ (if percentage > Percentage stored
                           \<or> (percentage = Percentage stored \<and> score > Score stored)
                        then e else stored) # post)
        \<and> gistMerge userID percentage score e (pre @ stored # post) =
            pre @ (if percentage > Percentage stored
                      \<or> (percentage = Percentage stored \<and> score > Score stored)
                   then e else stored) # post"
    if "\<forall>x\<in>set pre. UserID x \<noteq> userID" "UserID stored = userID" for e
    using that by (simp add: memoryMerge_present gistMerge_present)
  have failed: "GistAddEntry now getOK patchOK userID username firstName score total' entries =
             Inr (False, entries)"
    if "go_div (go_mul score 100) total' = Inr percentage" "\<not> (getOK \<and> patchOK)"
    using that by (rule GistAddEntry_failed)
  show ?thesis
  proof (intro conjI impI)
    assume p: "go_div (go_mul score 100) total' = Inr percentage"
      and a: "\<forall>x\<in>set entries. UserID x \<noteq> userID"
    show "MemoryAddEntry now userID username firstName score total' entries =
           Inr (True, entries @ [?new])"
      using add[OF p, of entries] absent[OF a, of ?new] by simp
    show "GistAddEntry now True True userID username firstName score total' entries =
             Inr (True, entries @ [?new])"
      using add[OF p, of entries] absent[OF a, of ?new] by simp
  next
    assume p: "go_div (go_mul score 100) total' = Inr percentage"
      and a: "(\<forall>x\<in>set pre. UserID x \<noteq> userID) \<and> UserID stored = userID"
    have pr: "\<forall>x\<in>set pre. UserID x \<noteq> userID" and st: "UserID stored = userID"
      using a by simp_all
    show "MemoryAddEntry now userID username firstName score total' (pre @ stored # post) =
             Inr (True, pre @
                    (if percentage > Percentage stored
                        \<or> (percentage = Percentage stored \<and> score > Score stored)
                     then ?new else stored) # post)"
      using add[OF p, of "pre @ stored # post"] present[OF pr st, of ?new] by simp
    show "GistAddEntry now True True userID username firstName score total'
                 (pre @ stored # post) =
               Inr (True, pre @
                      (if percentage > Percentage stored
                          \<or> (percentage = Percentage stored \<and> score > Score stored)
                       then ?new else stored) # post)"
      using add[OF p, of "pre @ stored # post"] present[OF pr st, of ?new] by simp
  next
    assume "go_div (go_mul score 100) total' = Inr percentage" "\<not> (getOK \<and> patchOK)"
    then show "GistAddEntry now getOK patchOK userID username firstName score total' entries =
             Inr (False, entries)"
      by (rule failed)
  next
    assume "UserID new = userID \<and> Percentage new = percentage \<and> Score new = score
        \<and> (\<forall>x\<in>set entries. UserID x \<noteq> userID)"
    then have a: "\<forall>x\<in>set entries. UserID x \<noteq> userID" by simp
    show "memoryMerge userID percentage score new entries = (True, entries @ [new])"
      using absent[OF a, of new] by simp
    show "gistMerge userID percentage score new entries = entries @ [new]"
      using absent[OF a, of new] by simp
  next
    assume "UserID new = userID \<and> Percentage new = percentage \<and> Score new = score
        \<and> (\<forall>x\<in>set pre. UserID x \<noteq> userID) \<and> UserID stored = userID"
    then have pr: "\<forall>x\<in>set pre. UserID x \<noteq> userID" and st: "UserID stored = userID"
      by simp_all
    show "memoryMerge userID percentage score new (pre @ stored # post) =
          (True, pre @ (if percentage > Percentage stored
                           \<or> (percentage = Percentage stored \<and> score > Score stored)
                        then new else stored) # post)"
      using present[OF pr st, of new] by simp
    show "gistMerge userID percentage score new (pre @ stored # post) =
            pre @ (if percentage > Percentage stored
                      \<or> (percentage = Percentage stored \<and> score > Score stored)
                   then new else stored) # post"
      using present[OF pr st, of new] by simp
  qed
qed

text \<open>
  The examples of claim C1, over the stored entry with percentage 70 and score 7. The
  submission 4 of 5 (80 percent) overwrites it in both services, and the entry stored
  carries score 4 and percentage 80. The submission 14 of 20 (70 percent, the greater
  score) overwrites it; the submission 3 of 10 does not; the submission of user 2 is
  appended; and with a failed save the gist keeps the stored entry. No total gives
  score 9 the percentage 70, so that example is run on the loops: an entry with
  percentage 70 and score 9 overwrites, one with percentage 70 and score 7 does not.
\<close>
theorem C1_best_wins_merge_witness:
  "go_div (go_mul 4 100) 5 = Inr 80
   \<and> UserID stored7of10 = 1 \<and> Percentage stored7of10 = 70 \<and> Score stored7of10 = 7
   \<and> MemoryAddEntry ''t'' 1 ''user'' ''User'' 4 5 [stored7of10] =
       Inr (True, [\<lparr>UserID = 1, Username = ''user'', FirstName = ''User'', Score = 4,
                     Total = 5, Percentage = 80, Date = ''t''\<rparr>])
   \<and> GistAddEntry ''t'' True True 1 ''user'' ''User'' 4 5 [stored7of10] =
       Inr (True, [\<lparr>UserID = 1, Username = ''user'', FirstName = ''User'', Score = 4,
                     Total = 5, Percentage = 80, Date = ''t''\<rparr>])
   \<and> GistAddEntry ''t'' True False 1 ''user'' ''User'' 4 5 [stored7of10] =
       Inr (False, [stored7of10])
   \<and> go_div (go_mul 14 100) 20 = Inr 70
   \<and> MemoryAddEntry ''t'' 1 ''user'' ''User'' 14 20 [stored7of10] =
       Inr (True, [\<lparr>UserID = 1, Username = ''user'', FirstName = ''User'', Score = 14,
                     Total = 20, Percentage = 70, Date = ''t''\<rparr>])
   \<and> go_div (go_mul 3 100) 10 = Inr 30
   \<and> GistAddEntry ''t'' True True 1 ''user'' ''User'' 3 10 [stored7of10] =
       Inr (True, [stored7of10])
   \<and> go_div (go_mul 1 100) 2 = Inr 50
   \<and> MemoryAddEntry ''t'' 2 ''b'' ''B'' 1 2 [stored7of10] =
       Inr (True, [stored7of10,
                   \<lparr>UserID = 2, Username = ''b'', FirstName = ''B'', Score = 1,
                     Total = 2, Percentage = 50, Date = ''t''\<rparr>])
   \<and> memoryMerge 1 70 9 submitted70and9 [stored7of10] = (True, [submitted70and9])
   \<and> gistMerge 1 70 9 submitted70and9 [stored7of10] = [submitted70and9]
   \<and> memoryMerge 1 70 7 stored7of10 [submitted70and9] = (True, [submitted70and9])"
proof -
  have p80: "go_div (go_mul 4 100) 5 = Inr 80"
    and p70: "go_div (go_mul 14 100) 20 = Inr 70"
    and p30: "go_div (go_mul 3 100) 10 = Inr 30"
    and p50: "go_div (go_mul 1 100) 2 = Inr 50"
    by (simp_all add: go_div_def go_mul_def wrap64_def)
  have u: "UserID stored7of10 = 1" "Percentage stored7of10 = 70" "Score stored7of10 = 7"
    by (simp_all add: stored7of10_def)
  have v: "UserID submitted70and9 = 1" "Percentage submitted70and9 = 70"
    "Score submitted70and9 = 9"
    by (simp_all add: submitted70and9_def)
  have nil: "\<forall>x\<in>set ([]::LeaderboardEntry list). UserID x \<noteq> 1" by simp
  have other: "\<forall>x\<in>set [stored7of10]. UserID x \<noteq> 2" by (simp add: u)
  have f: "\<not> (True \<and> False)" by simp
  note a = C1_best_wins_merge[where score=4 and total'=5 and percentage=80 and userID=1
      and pre="[]" and post="[]" and stored=stored7of10 and entries="[stored7of10]"
      and now="''t''" and username="''user''" and firstName="''User''"
      and getOK=True and patchOK=False]
  note b = C1_best_wins_merge[where score=14 and total'=20 and percentage=70 and userID=1
      and pre="[]" and post="[]" and stored=stored7of10
      and now="''t''" and username="''user''" and firstName="''User''"]
  note c = C1_best_wins_merge[where score=3 and total'=10 and percentage=30 and userID=1
      and pre="[]" and post="[]" and stored=stored7of10
      and now="''t''" and username="''user''" and firstName="''User''"]
  note d = C1_best_wins_merge[where score=1 and total'=2 and percentage=50 and userID=2
      and entries="[stored7of10]"
      and now="''t''" and username="''b''" and firstName="''B''"]
  note e = C1_best_wins_merge[where score=9 and percentage=70 and userID=1
      and pre="[]" and post="[]" and stored=stored7of10 and new=submitted70and9]
  note g = C1_best_wins_merge[where score=7 and percentage=70 and userID=1
      and pre="[]" and post="[]" and stored=submitted70and9 and new=stored7of10]
  have a1: "MemoryAddEntry ''t'' 1 ''user'' ''User'' 4 5 [stored7of10] =
       Inr (True, [\<lparr>UserID = 1, Username = ''user'', FirstName = ''User'', Score = 4,
                     Total = 5, Percentage = 80, Date = ''t''\<rparr>])"
    using a p80 nil u by simp
  have a2: "GistAddEntry ''t'' True True 1 ''user'' ''User'' 4 5 [stored7of10] =
       Inr (True, [\<lparr>UserID = 1, Username = ''user'', FirstName = ''User'', Score = 4,
                     Total = 5, Percentage = 80, Date = ''t''\<rparr>])"
    using a p80 nil u by simp
  have a3: "GistAddEntry ''t'' True False 1 ''user'' ''User'' 4 5 [stored7of10] =
       Inr (False, [stored7of10])"
    using a p80 f by simp
  have b1: "MemoryAddEntry ''t'' 1 ''user'' ''User'' 14 20 [stored7of10] =
       Inr (True, [\<lparr>UserID = 1, Username = ''user'', FirstName = ''User'', Score = 14,
                     Total = 20, Percentage = 70, Date = ''t''\<rparr>])"
    using b p70 nil u by simp
  have c1: "GistAddEntry ''t'' True True 1 ''user'' ''User'' 3 10 [stored7of10] =
       Inr (True, [stored7of10])"
    using c p30 nil u by simp
  have d1: "MemoryAddEntry ''t'' 2 ''b'' ''B'' 1 2 [stored7of10] =
       Inr (True, [stored7of10,
                   \<lparr>UserID = 2, Username = ''b'', FirstName = ''B'', Score = 1,
                     Total = 2, Percentage = 50, Date = ''t''\<rparr>])"
    using d p50 other by simp
  have e1: "memoryMerge 1 70 9 submitted70and9 [stored7of10] = (True, [submitted70and9])"
    using e v nil u by simp
  have e2: "gistMerge 1 70 9 submitted70and9 [stored7of10] = [submitted70and9]"
    using e v nil u by simp
  have g1: "memoryMerge 1 70 7 stored7of10 [submitted70and9] = (True, [submitted70and9])"
    using g u nil v by simp
  show ?thesis
    using p80 p70 p30 p50 u a1 a2 a3 b1 c1 d1 e1 e2 g1 by simp
qed

text \<open>
  Claim C2 (the boolean of \<open>AddEntry\<close>). Over the stored entry 7 of 10, the submission
  3 of 10 of the same user leaves the entry as it is, and both services return true: the
  result does not tell a new best from a submission that was no improvement.
\<close>
theorem C2_true_without_improvement:
  "MemoryAddEntry ''t'' 1 ''user'' ''User'' 3 10 [stored70] = Inr (True, [stored70])
   \<and> GistAddEntry ''t'' True True 1 ''user'' ''User'' 3 10 [stored70] = Inr (True, [stored70])"
  by (simp add: MemoryAddEntry_def GistAddEntry_def loadFromGist_def saveToGist_def
      memoryMerge_def gistMerge_def go_div_def go_mul_def wrap64_def stored70_def newEntry_def)

text \<open>
  Claim C10, as stated, fails in three places: with a total of 0 the gist service
  returns false without dividing when its load fails; a negative score is divided
  towards zero (-33, where the floor of -100/3 is -34); and \<open>score * 100\<close> wraps around
  for a score of \<open>2 ^ 62\<close>.
\<close>
theorem C10_counterexample:
  "GistAddEntry ''t'' False True 1 ''user'' ''User'' 5 0 [] = Inr (False, [])
   \<and> MemoryAddEntry ''t'' 1 ''user'' ''User'' (- 1) 3 [] =
       Inr (True, [newEntry ''t'' 1 ''user'' ''User'' (- 1) 3 (- 33)])
   \<and> (- 1 * 100) div (3::int) = - 34
   \<and> MemoryAddEntry ''t'' 1 ''user'' ''User'' (2 ^ 62) 1 [] =
       Inr (True, [newEntry ''t'' 1 ''user'' ''User'' (2 ^ 62) 1 0])"
  by (simp add: MemoryAddEntry_def GistAddEntry_def loadFromGist_def
      memoryMerge_def go_div_def go_mul_def wrap64_def)

text \<open>
  Claim C10, amended. With a total of 0, \<open>AddEntry\<close> of the memory service panics with a
  division by zero, and so does that of the gist service once its load has gone through;
  after a failed load the gist service returns false before it divides. For a total
  above 0 and a score from 0 on whose hundredfold is an \<open>int\<close>, the division goes through
  and the percentage is the floor of \<open>score * 100 / total\<close>.
\<close>
theorem C10_percentage:
  "MemoryAddEntry now userID username firstName score 0 entries = Inl DivideByZero
   \<and> GistAddEntry now True patchOK userID username firstName score 0 remote = Inl DivideByZero
   \<and> GistAddEntry now False patchOK userID username firstName score total' remote =
       Inr (False, remote)
   \<and> (0 < total' \<and> 0 \<le> score \<and> score * 100 < 2 ^ 63 \<longrightarrow>
        go_div (go_mul score 100) total' = Inr (score * 100 div total')
        \<and> MemoryAddEntry now userID username firstName score total' entries =
            Inr (memoryMerge userID (score * 100 div total') score
                   (newEntry now userID username firstName score total' (score * 100 div total'))
                   entries)
        \<and> GistAddEntry now True True userID username firstName score total' remote =
            Inr (True, gistMerge userID (score * 100 div total') score
                   (newEntry now userID username firstName score total' (score * 100 div total'))
                   remote))"
proof -
  have z: "go_div x 0 = Inl DivideByZero" for x by (simp add: go_div_def)
  have 1: "MemoryAddEntry now userID username firstName score 0 entries = Inl DivideByZero"
    by (simp add: MemoryAddEntry_def z)
  have 2: "GistAddEntry now True patchOK userID username firstName score 0 remote = Inl DivideByZero"
    by (simp add: GistAddEntry_def loadFromGist_def z)
  have 3: "GistAddEntry now False patchOK userID username firstName score total' remote =
       Inr (False, remote)"
    by (simp add: GistAddEntry_def loadFromGist_def)
  show ?thesis
    using 1 2 3 go_percentage MemoryAddEntry_merge GistAddEntry_merge by presburger
qed

text \<open>Claim C10 on 2 of 3: 66 percent.\<close>
theorem C10_percentage_witness:
  "(0::int) < 3 \<and> (0::int) \<le> 2 \<and> (2::int) * 100 < 2 ^ 63
   \<and> go_div (go_mul 2 100) 3 = Inr 66
   \<and> MemoryAddEntry ''t'' 1 ''user'' ''User'' 2 3 [] =
       Inr (True, [newEntry ''t'' 1 ''user'' ''User'' 2 3 66])
   \<and> GistAddEntry ''t'' True True 1 ''user'' ''User'' 2 3 [] =
       Inr (True, [newEntry ''t'' 1 ''user'' ''User'' 2 3 66])
   \<and> MemoryAddEntry ''t'' 1 ''user'' ''User'' 2 0 [] = Inl DivideByZero"
  using C10_percentage[where score=2 and total'=3 and now="''t''" and userID=1
      and username="''user''" and firstName="''User''" and entries="[]" and remote="[]"]
  by (simp add: memoryMerge_def gistMerge_def)

subsection \<open>GetTop\<close>

lemma mset_take_subset: "mset (take n xs) \<subseteq># mset xs"
  by (metis append_take_drop_id mset_append mset_subset_eq_add_left)

lemma contract_mset: "sortSliceContract srt \<Longrightarrow> mset (srt xs) = mset xs"
  by (simp add: sortSliceContract_def)

text \<open>
  Claim C5, as stated, fails for a negative limit: it is not clamped, and the slice
  expression panics.
\<close>
theorem C5_counterexample:
  "MemoryGetTop insertionSort (- 1) [] = Inl SliceBoundsOutOfRange
   \<and> GistGetTop insertionSort True (- 1) [] = Inl SliceBoundsOutOfRange"
  by (simp add: MemoryGetTop_def GistGetTop_def loadFromGist_def sliceTo_def insertionSort_def)

text \<open>
  Claim C5, amended. For every sort that meets the contract of \<open>sort.Slice\<close>, every
  collection and every limit from 0 on, \<open>GetTop\<close> returns the first \<open>limit\<close> entries of
  the sorted collection: \<open>min limit (size of the collection)\<close> entries (none for the gist
  service when its load fails), in descending order of percentage and, among equal
  percentages, of score, all of them entries of the collection. A limit above the size
  is clamped to the size.
\<close>
theorem C5_get_top:
  "sortSliceContract srt \<and> 0 \<le> limit \<longrightarrow>
     (\<exists>top'. MemoryGetTop srt limit entries = Inr top'
        \<and> top' = take (nat limit) (srt entries)
        \<and> length top' = min (nat limit) (length entries)
        \<and> sorted_wrt (\<lambda>a b. Percentage a > Percentage b
                          \<or> (Percentage a = Percentage b \<and> Score a \<ge> Score b)) top'
        \<and> mset top' \<subseteq># mset entries)
     \<and> (\<exists>top'. GistGetTop srt getOK limit entries = Inr top'
        \<and> top' = (if getOK then take (nat limit) (srt entries) else [])
        \<and> length top' \<le> min (nat limit) (length entries)
        \<and> sorted_wrt (\<lambda>a b. Percentage a > Percentage b
                          \<or> (Percentage a = Percentage b \<and> Score a \<ge> Score b)) top'
        \<and> mset top' \<subseteq># mset entries)"
proof (intro impI, elim conjE)
  assume c: "sortSliceContract srt" and l: "0 \<le> limit"
  let ?desc = "\<lambda>a b. Percentage a > Percentage b
                          \<or> (Percentage a = Percentage b \<and> Score a \<ge> Score b)"
  let ?t = "take (nat limit) (srt entries)"
  have len: "length ?t = min (nat limit) (length entries)"
    using c by (simp add: contract_length min.commute)
  have srt: "sorted_wrt ?desc ?t"
    using c by (intro sorted_wrt_take contract_sorted)
  have sub: "mset ?t \<subseteq># mset entries"
    using mset_take_subset[of "nat limit" "srt entries"] c by (simp add: contract_mset)
  have m: "MemoryGetTop srt limit entries = Inr ?t" using c l by (rule MemoryGetTop_eq)
  have g: "GistGetTop srt getOK limit entries = Inr (if getOK then ?t else [])"
    using c l by (rule GistGetTop_eq)
  show "(\<exists>top'. MemoryGetTop srt limit entries = Inr top'
        \<and> top' = take (nat limit) (srt entries)
        \<and> length top' = min (nat limit) (length entries)
        \<and> sorted_wrt ?desc top'
        \<and> mset top' \<subseteq># mset entries)
     \<and> (\<exists>top'. GistGetTop srt getOK limit entries = Inr top'
        \<and> top' = (if getOK then take (nat limit) (srt entries) else [])
        \<and> length top' \<le> min (nat limit) (length entries)
        \<and> sorted_wrt ?desc top'
        \<and> mset top' \<subseteq># mset entries)"
  proof (intro conjI)
    show "\<exists>top'. MemoryGetTop srt limit entries = Inr top'
        \<and> top' = take (nat limit) (srt entries)
        \<and> length top' = min (nat limit) (length entries)
        \<and> sorted_wrt ?desc top'
        \<and> mset top' \<subseteq># mset entries"
      using m len srt sub by blast
    show "\<exists>top'. GistGetTop srt getOK limit entries = Inr top'
        \<and> top' = (if getOK then take (nat limit) (srt entries) else [])
        \<and> length top' \<le> min (nat limit) (length entries)
        \<and> sorted_wrt ?desc top'
        \<and> mset top' \<subseteq># mset entries"
    proof (cases getOK)
      case True
      then show ?thesis using g len srt sub by simp
    next
      case False
      then show ?thesis using g by simp
    qed
  qed
qed

text \<open>Claim C5 on a board of three entries and the limit 2.\<close>
theorem C5_get_top_witness:
  "sortSliceContract insertionSort \<and> (0::int) \<le> 2
   \<and> (\<exists>top'. MemoryGetTop insertionSort 2 board3 = Inr top'
        \<and> top' = take (nat 2) (insertionSort board3)
        \<and> length top' = min (nat 2) (length board3)
        \<and> sorted_wrt (\<lambda>a b. Percentage a > Percentage b
                          \<or> (Percentage a = Percentage b \<and> Score a \<ge> Score b)) top'
        \<and> mset top' \<subseteq># mset board3)
   \<and> (\<exists>top'. GistGetTop insertionSort False 2 board3 = Inr top'
        \<and> top' = (if False then take (nat 2) (insertionSort board3) else [])
        \<and> length top' \<le> min (nat 2) (length board3)
        \<and> sorted_wrt (\<lambda>a b. Percentage a > Percentage b
                          \<or> (Percentage a = Percentage b \<and> Score a \<ge> Score b)) top'
        \<and> mset top' \<subseteq># mset board3)"
  using C5_get_top[of insertionSort 2 board3 False] insertionSort_contract by simp

lemma MemoryGetTop_board3:
  "MemoryGetTop insertionSort 2 board3 =
     Inr [newEntry ''d3'' 3 ''c'' ''C'' 9 10 90, newEntry ''d2'' 1 ''a'' ''A'' 8 10 80]"
  by (simp add: MemoryGetTop_def sliceTo_def insertionSort_def board3_def newEntry_def
      lessEntry_def Let_def)

subsection \<open>GetUserPosition\<close>

lemma MemoryGetUserPosition_eq:
  assumes "sortSliceContract srt"
  shows "MemoryGetUserPosition srt userID entries = Inr (positionLoop userID 0 (srt entries))"
  using assms contract_length[OF assms, of entries]
  by (simp add: MemoryGetUserPosition_def MemoryGetTop_eq)

lemma GistGetUserPosition_eq:
  assumes "sortSliceContract srt"
  shows "GistGetUserPosition srt getOK1 getOK2 userID remote =
           Inr (positionLoop userID 0
                  (if getOK1 \<and> getOK2 then take 1000 (srt remote) else []))"
  using assms by (simp add: GistGetUserPosition_def GistGetTop_eq min_def)

lemma filter_length_mset: "mset xs = mset ys \<Longrightarrow> length (filter P xs) = length (filter P ys)"
  by (metis mset_filter size_mset)

lemma lessEntry_irrefl: "\<not> lessEntry e e"
  by (simp add: lessEntry_def)

lemma rank_bounds:
  assumes s: "sorted_wrt (\<lambda>a b. \<not> lessEntry b a) (pre @ e # post)"
  shows "length (filter (\<lambda>x. lessEntry x e) (pre @ e # post)) \<le> length pre"
    and "length pre < length (filter (\<lambda>x. \<not> lessEntry e x) (pre @ e # post))"
proof -
  have post: "\<forall>x\<in>set post. \<not> lessEntry x e"
    using s by (auto simp: sorted_wrt_append)
  have pre: "\<forall>x\<in>set pre. \<not> lessEntry e x"
    using s by (auto simp: sorted_wrt_append)
  have "filter (\<lambda>x. lessEntry x e) post = []" using post by (simp add: filter_empty_conv)
  then have "length (filter (\<lambda>x. lessEntry x e) (pre @ e # post)) = length (filter (\<lambda>x. lessEntry x e) pre)"
    by (simp add: lessEntry_irrefl)
  then show "length (filter (\<lambda>x. lessEntry x e) (pre @ e # post)) \<le> length pre"
    by simp
  have "filter (\<lambda>x. \<not> lessEntry e x) pre = pre" using pre by (simp add: filter_id_conv)
  then show "length pre < length (filter (\<lambda>x. \<not> lessEntry e x) (pre @ e # post))"
    by (simp add: lessEntry_irrefl)
qed

lemma position_present:
  assumes c: "sortSliceContract srt" and ex: "\<exists>x\<in>set entries. UserID x = userID"
  shows "\<exists>i e. i < length entries \<and> srt entries ! i = e \<and> UserID e = userID \<and> e \<in> set entries
           \<and> (\<forall>j<i. UserID (srt entries ! j) \<noteq> userID)
           \<and> length (filter (\<lambda>x. lessEntry x e) entries) \<le> i
           \<and> i < length (filter (\<lambda>x. \<not> lessEntry e x) entries)
           \<and> positionLoop userID 0 (srt entries) = (int i + 1, Some e)"
proof -
  have "\<exists>x\<in>set (srt entries). UserID x = userID" using ex c by (simp add: contract_set)
  then obtain pre e post where xs: "srt entries = pre @ e # post" and e: "UserID e = userID"
    and pre: "\<forall>x\<in>set pre. UserID x \<noteq> userID"
    using first_match_split[of "srt entries" "\<lambda>x. UserID x = userID"] by blast
  let ?i = "length pre"
  have len: "?i < length entries"
    using contract_length[OF c, of entries] xs by simp
  have nth: "srt entries ! ?i = e" using xs by simp
  have mem: "e \<in> set entries" using contract_set[OF c, of entries] xs by auto
  have before: "\<forall>j<?i. UserID (srt entries ! j) \<noteq> userID"
    using pre xs by (simp add: nth_append)
  have sorted: "sorted_wrt (\<lambda>a b. \<not> lessEntry b a) (pre @ e # post)"
    using c xs by (metis sortSliceContract_def)
  have m: "mset entries = mset (pre @ e # post)"
    using c xs by (metis sortSliceContract_def)
  have lo: "length (filter (\<lambda>x. lessEntry x e) entries) \<le> ?i"
    using rank_bounds(1)[OF sorted] filter_length_mset[OF m] by simp
  have hi: "?i < length (filter (\<lambda>x. \<not> lessEntry e x) entries)"
    using rank_bounds(2)[OF sorted] filter_length_mset[OF m] by simp
  have pos: "positionLoop userID 0 (srt entries) = (int ?i + 1, Some e)"
    using positionLoop_present[OF pre e, of 0 post] xs by simp
  show ?thesis using len nth e mem before lo hi pos by blast
qed

text \<open>
  Claim C6, as stated, fails for the gist service when a load fails: the user has an
  entry and is reported as not found.
\<close>
theorem C6_counterexample:
  "GistGetUserPosition insertionSort False False 1 board3 = Inr (- 1, None)
   \<and> (\<exists>x\<in>set board3. UserID x = 1)"
  by (simp add: GistGetUserPosition_def GistGetTop_def loadFromGist_def sliceTo_def
      board3_def newEntry_def)

text \<open>
  Claim C6, amended. For every sort that meets the contract of \<open>sort.Slice\<close>: a user
  without an entry is reported as \<open>(-1, nil)\<close> by both services. For a user with an entry,
  the memory service, and the gist service when both loads go through and the
  collection has at most 1000 entries, return \<open>i + 1\<close> and the entry \<open>e\<close>, where \<open>i\<close> is
  the first index of the sorted collection at which an entry of the user stands: every
  entry that is better than \<open>e\<close> stands before it, and only entries that are not worse
  do. When a load fails, the gist service reports \<open>(-1, nil)\<close>.
\<close>
theorem C6_user_position:
  "sortSliceContract srt \<longrightarrow>
     ((\<forall>x\<in>set entries. UserID x \<noteq> userID) \<longrightarrow>
        MemoryGetUserPosition srt userID entries = Inr (- 1, None)
        \<and> GistGetUserPosition srt getOK1 getOK2 userID entries = Inr (- 1, None))
     \<and> ((\<exists>x\<in>set entries. UserID x = userID) \<longrightarrow>
          (\<exists>i e. i < length entries \<and> srt entries ! i = e \<and> UserID e = userID \<and> e \<in> set entries
             \<and> (\<forall>j<i. UserID (srt entries ! j) \<noteq> userID)
             \<and> length (filter (\<lambda>x. lessEntry x e) entries) \<le> i
             \<and> i < length (filter (\<lambda>x. \<not> lessEntry e x) entries)
             \<and> MemoryGetUserPosition srt userID entries = Inr (int i + 1, Some e)
             \<and> (length entries \<le> 1000 \<longrightarrow>
                  GistGetUserPosition srt True True userID entries = Inr (int i + 1, Some e))))
     \<and> (\<not> (getOK1 \<and> getOK2) \<longrightarrow>
          GistGetUserPosition srt getOK1 getOK2 userID entries = Inr (- 1, None))"
proof
  assume c: "sortSliceContract srt"
  have absent: "MemoryGetUserPosition srt userID entries = Inr (- 1, None)
        \<and> GistGetUserPosition srt getOK1 getOK2 userID entries = Inr (- 1, None)"
    if a: "\<forall>x\<in>set entries. UserID x \<noteq> userID"
  proof -
    have 1: "\<forall>x\<in>set (srt entries). UserID x \<noteq> userID" using a c by (simp add: contract_set)
    then have 2: "\<forall>x\<in>set (take 1000 (srt entries)). UserID x \<noteq> userID"
      by (meson in_set_takeD)
    show ?thesis
      using positionLoop_absent[OF 1, of 0] positionLoop_absent[OF 2, of 0]
      by (simp add: MemoryGetUserPosition_eq[OF c] GistGetUserPosition_eq[OF c])
  qed
  have present: "\<exists>i e. i < length entries \<and> srt entries ! i = e \<and> UserID e = userID \<and> e \<in> set entries
             \<and> (\<forall>j<i. UserID (srt entries ! j) \<noteq> userID)
             \<and> length (filter (\<lambda>x. lessEntry x e) entries) \<le> i
             \<and> i < length (filter (\<lambda>x. \<not> lessEntry e x) entries)
             \<and> MemoryGetUserPosition srt userID entries = Inr (int i + 1, Some e)
             \<and> (length entries \<le> 1000 \<longrightarrow>
                  GistGetUserPosition srt True True userID entries = Inr (int i + 1, Some e))"
    if p: "\<exists>x\<in>set entries. UserID x = userID"
  proof -
    have t: "length entries \<le> 1000 \<Longrightarrow> take 1000 (srt entries) = srt entries"
      using contract_length[OF c, of entries] by simp
    obtain i e where ie: "i < length entries" "srt entries ! i = e" "UserID e = userID"
        "e \<in> set entries" "\<forall>j<i. UserID (srt entries ! j) \<noteq> userID"
        "length (filter (\<lambda>x. lessEntry x e) entries) \<le> i"
        "i < length (filter (\<lambda>x. \<not> lessEntry e x) entries)"
        "positionLoop userID 0 (srt entries) = (int i + 1, Some e)"
      using position_present[OF c p] by blast
    have m: "MemoryGetUserPosition srt userID entries = Inr (int i + 1, Some e)"
      using ie(8) by (simp add: MemoryGetUserPosition_eq[OF c])
    have g: "length entries \<le> 1000 \<longrightarrow>
                  GistGetUserPosition srt True True userID entries = Inr (int i + 1, Some e)"
      using ie(8) t by (simp add: GistGetUserPosition_eq[OF c])
    show ?thesis using ie(1-7) m g by blast
  qed
  have failed: "GistGetUserPosition srt getOK1 getOK2 userID entries = Inr (- 1, None)"
    if "\<not> (getOK1 \<and> getOK2)"
    using that by (auto simp add: GistGetUserPosition_eq[OF c])
  show "((\<forall>x\<in>set entries. UserID x \<noteq> userID) \<longrightarrow>
        MemoryGetUserPosition srt userID entries = Inr (- 1, None)
        \<and> GistGetUserPosition srt getOK1 getOK2 userID entries = Inr (- 1, None))
     \<and> ((\<exists>x\<in>set entries. UserID x = userID) \<longrightarrow>
          (\<exists>i e. i < length entries \<and> srt entries ! i = e \<and> UserID e = userID \<and> e \<in> set entries
             \<and> (\<forall>j<i. UserID (srt entries ! j) \<noteq> userID)
             \<and> length (filter (\<lambda>x. lessEntry x e) entries) \<le> i
             \<and> i < length (filter (\<lambda>x. \<not> lessEntry e x) entries)
             \<and> MemoryGetUserPosition srt userID entries = Inr (int i + 1, Some e)
             \<and> (length entries \<le> 1000 \<longrightarrow>
                  GistGetUserPosition srt True True userID entries = Inr (int i + 1, Some e))))
     \<and> (\<not> (getOK1 \<and> getOK2) \<longrightarrow>
          GistGetUserPosition srt getOK1 getOK2 userID entries = Inr (- 1, None))"
    using absent present failed by blast
qed

text \<open>Claim C6 on a board of three entries, for the users 1 (present) and 4 (absent).\<close>
theorem C6_user_position_witness:
  "sortSliceContract insertionSort
   \<and> (\<exists>x\<in>set board3. UserID x = 1)
   \<and> (\<exists>i e. i < length board3 \<and> insertionSort board3 ! i = e \<and> UserID e = 1 \<and> e \<in> set board3
             \<and> length (filter (\<lambda>x. lessEntry x e) board3) \<le> i
             \<and> i < length (filter (\<lambda>x. \<not> lessEntry e x) board3)
             \<and> MemoryGetUserPosition insertionSort 1 board3 = Inr (int i + 1, Some e)
             \<and> GistGetUserPosition insertionSort True True 1 board3 = Inr (int i + 1, Some e))
   \<and> MemoryGetUserPosition insertionSort 4 board3 = Inr (- 1, None)
   \<and> GistGetUserPosition insertionSort True True 4 board3 = Inr (- 1, None)
   \<and> GistGetUserPosition insertionSort True False 1 board3 = Inr (- 1, None)"
proof -
  have c: "sortSliceContract insertionSort" by (rule insertionSort_contract)
  have p: "\<exists>x\<in>set board3. UserID x = 1" by (simp add: board3_def newEntry_def)
  have a: "\<forall>x\<in>set board3. UserID x \<noteq> 4" by (simp add: board3_def newEntry_def)
  have l: "length board3 \<le> 1000" by (simp add: board3_def)
  have f: "\<not> (True \<and> False)" by simp
  note t1 = C6_user_position[of insertionSort board3 1 True True, rule_format]
  note t4 = C6_user_position[of insertionSort board3 4 True True, rule_format]
  note tf = C6_user_position[of insertionSort board3 1 True False, rule_format]
  show ?thesis
    using c p t1 t4 tf a l f by blast
qed

lemma MemoryGetUserPosition_board3:
  "MemoryGetUserPosition insertionSort 1 board3 = Inr (2, Some (newEntry ''d2'' 1 ''a'' ''A'' 8 10 80))"
  by (simp add: MemoryGetUserPosition_def MemoryGetTop_def sliceTo_def insertionSort_def
      board3_def newEntry_def lessEntry_def Let_def)

section \<open>Properties of the questions\<close>

subsection \<open>ShuffleQuestions\<close>

lemma swapAt_other: "a' \<noteq> a \<Longrightarrow> arrays (swapAt st a i j) a' = arrays st a'"
  by (simp add: swapAt_def split: option.splits)

lemma swapAt_fresh: "fresh (swapAt st a i j) = fresh st"
  by (simp add: swapAt_def split: option.splits)

lemma swapAt_same:
  "arrays st a = Some xs \<Longrightarrow>
   arrays (swapAt st a i j) a = Some (xs[i := xs ! j, j := xs ! i])"
  by (simp add: swapAt_def)

lemma shuffleLoop_other: "a' \<noteq> a \<Longrightarrow> arrays (shuffleLoop rnd a i st) a' = arrays st a'"
  by (induction i arbitrary: st) (simp_all add: swapAt_other Let_def)

lemma shuffleLoop_fresh: "fresh (shuffleLoop rnd a i st) = fresh st"
  by (induction i arbitrary: st) (simp_all add: swapAt_fresh Let_def)

lemma shuffleLoop_same:
  "arrays st a = Some xs \<Longrightarrow> i < length xs \<or> i = 0 \<Longrightarrow>
   \<exists>ys. arrays (shuffleLoop rnd a i st) a = Some ys \<and> length ys = length xs \<and> mset ys = mset xs"
proof (induction i arbitrary: st xs)
  case 0
  then show ?case by simp
next
  case (Suc i)
  let ?j = "rnd (Suc i) mod (Suc i + 1)"
  let ?xs' = "xs[Suc i := xs ! ?j, ?j := xs ! Suc i]"
  have i: "Suc i < length xs" using Suc.prems by simp
  have j: "?j < length xs"
  proof -
    have "?j < Suc i + 1" by (rule mod_less_divisor) simp
    then show ?thesis using i by linarith
  qed
  have st: "arrays (swapAt st a (Suc i) ?j) a = Some ?xs'"
    using Suc.prems(1) by (rule swapAt_same)
  have "\<exists>ys. arrays (shuffleLoop rnd a i (swapAt st a (Suc i) ?j)) a = Some ys
          \<and> length ys = length ?xs' \<and> mset ys = mset ?xs'"
    using st i by (intro Suc.IH) auto
  moreover have "mset ?xs' = mset xs" using i j by (simp add: mset_swap)
  ultimately show ?case by (simp add: Let_def)
qed

lemma ShuffleQuestions_store:
  assumes "ShuffleQuestions rnd st questions = (st', shuffled)"
    and "questions < fresh st"
    and "arrays st questions = Some xs"
  shows "\<exists>ys. arrays st' shuffled = Some ys \<and> length ys = length xs \<and> mset ys = mset xs"
    and "arrays st' questions = Some xs"
    and "\<forall>a. a \<noteq> shuffled \<longrightarrow> arrays st' a = arrays st a"
    and "shuffled = fresh st" and "fresh st' = Suc (fresh st)"
proof -
  let ?st1 = "st\<lparr>arrays := (arrays st)(fresh st \<mapsto> xs), fresh := Suc (fresh st)\<rparr>"
  have sh: "shuffled = fresh st" and st': "st' = shuffleLoop rnd (fresh st) (length xs - 1) ?st1"
    using assms(1,3) by (auto simp add: ShuffleQuestions_def Let_def)
  show "shuffled = fresh st" by (rule sh)
  have 1: "arrays ?st1 (fresh st) = Some xs" by simp
  have 2: "length xs - 1 < length xs \<or> length xs - 1 = 0" by (cases xs) auto
  show "\<exists>ys. arrays st' shuffled = Some ys \<and> length ys = length xs \<and> mset ys = mset xs"
    unfolding sh st' using 1 2 by (rule shuffleLoop_same)
  have other: "arrays st' a = arrays st a" if "a \<noteq> shuffled" for a
    using that unfolding sh st' by (simp add: shuffleLoop_other)
  then show "\<forall>a. a \<noteq> shuffled \<longrightarrow> arrays st' a = arrays st a" by blast
  have "questions \<noteq> shuffled" using assms(2) sh by simp
  then show "arrays st' questions = Some xs" using other assms(3) by simp
  show "fresh st' = Suc (fresh st)" unfolding st' by (simp add: shuffleLoop_fresh)
qed

lemma shuffledQuestions_perm:
  "length (shuffledQuestions rnd xs) = length xs \<and> mset (shuffledQuestions rnd xs) = mset xs"
proof -
  let ?st = "\<lparr>arrays = Map.empty(0 \<mapsto> xs), fresh = 1\<rparr>"
  obtain st' q where r: "ShuffleQuestions rnd ?st 0 = (st', q)" by fastforce
  have "\<exists>ys. arrays st' q = Some ys \<and> length ys = length xs \<and> mset ys = mset xs"
    using r by (rule ShuffleQuestions_store(1)) simp_all
  then obtain ys where ys: "arrays st' q = Some ys" "length ys = length xs" "mset ys = mset xs"
    by blast
  have "shuffledQuestions rnd xs = ys"
    unfolding shuffledQuestions_def r by (simp add: ys(1))
  then show ?thesis using ys by simp
qed

text \<open>
  Claim C8 (shuffle purity). For every store, every slice \<open>questions\<close> in it with
  elements \<open>xs\<close> (of any length, 0 included) and every sequence of random draws,
  \<open>ShuffleQuestions\<close> returns a new slice whose elements are a rearrangement of \<open>xs\<close>: the
  same length and the same multiset. After the call \<open>questions\<close> still holds \<open>xs\<close>, and
  so does every slice but the new one hold what it held.
\<close>
theorem C8_shuffle_purity:
  "(questions < fresh st \<and> arrays st questions = Some xs
      \<and> ShuffleQuestions rnd st questions = (st', shuffled) \<longrightarrow>
        (\<exists>ys. arrays st' shuffled = Some ys \<and> length ys = length xs \<and> mset ys = mset xs)
        \<and> arrays st' questions = Some xs
        \<and> shuffled = fresh st
        \<and> (\<forall>a. a \<noteq> shuffled \<longrightarrow> arrays st' a = arrays st a))
   \<and> length (shuffledQuestions rnd xs) = length xs
   \<and> mset (shuffledQuestions rnd xs) = mset xs"
  using ShuffleQuestions_store[of rnd st questions st' shuffled xs] shuffledQuestions_perm[of rnd xs]
  by blast

lemma shuffle_store1:
  "ShuffleQuestions (\<lambda>i. 0) store1 0 =
     (\<lparr>arrays = Map.empty(0 \<mapsto> DefaultQuizQuestions, 1 \<mapsto> rev DefaultQuizQuestions), fresh = 2\<rparr>, 1)"
  by (simp add: ShuffleQuestions_def store1_def DefaultQuizQuestions_def Let_def swapAt_def
      numeral_2_eq_2)

text \<open>Claim C8 on the two default questions, with every draw 0: the copy is reversed.\<close>
theorem C8_shuffle_purity_witness:
  "(0::nat) < fresh store1 \<and> arrays store1 0 = Some DefaultQuizQuestions
   \<and> ShuffleQuestions (\<lambda>i. 0) store1 0 =
       (\<lparr>arrays = Map.empty(0 \<mapsto> DefaultQuizQuestions, 1 \<mapsto> rev DefaultQuizQuestions), fresh = 2\<rparr>, 1)
   \<and> (\<exists>ys. arrays \<lparr>arrays = Map.empty(0 \<mapsto> DefaultQuizQuestions, 1 \<mapsto> rev DefaultQuizQuestions), fresh = 2\<rparr> 1 = Some ys
         \<and> length ys = length DefaultQuizQuestions \<and> mset ys = mset DefaultQuizQuestions)
   \<and> arrays \<lparr>arrays = Map.empty(0 \<mapsto> DefaultQuizQuestions, 1 \<mapsto> rev DefaultQuizQuestions), fresh = 2\<rparr> 0
       = Some DefaultQuizQuestions
   \<and> length (shuffledQuestions (\<lambda>i. 0) DefaultQuizQuestions) = length DefaultQuizQuestions
   \<and> mset (shuffledQuestions (\<lambda>i. 0) DefaultQuizQuestions) = mset DefaultQuizQuestions"
proof -
  have h1: "(0::nat) < fresh store1" by (simp add: store1_def)
  have h2: "arrays store1 0 = Some DefaultQuizQuestions" by (simp add: store1_def)
  note t = C8_shuffle_purity[of 0 store1 DefaultQuizQuestions "\<lambda>i. 0" _ 1, rule_format]
  show ?thesis using h1 h2 shuffle_store1 t by blast
qed

subsection \<open>ParseQuizQuestions and LoadQuizQuestions\<close>

lemma Index_ge: "- 1 \<le> Index s c"
  by (induction s) (auto simp: Let_def)

lemma Index_notin: "c \<notin> set s \<Longrightarrow> Index s c = - 1"
  by (induction s) (auto simp: Let_def)

lemma Index_in: "c \<in> set s \<Longrightarrow> Index s c = int (length (takeWhile (\<lambda>x. x \<noteq> c) s))"
proof (induction s)
  case Nil
  then show ?case by simp
next
  case (Cons x xs)
  show ?case
  proof (cases "x = c")
    case True
    then show ?thesis by simp
  next
    case False
    then have "c \<in> set xs" using Cons.prems by simp
    then have "Index xs c = int (length (takeWhile (\<lambda>x. x \<noteq> c) xs))" by (rule Cons.IH)
    then show ?thesis using False by (simp add: Let_def)
  qed
qed

lemma parseQuestionLine_no_quote:
  "quote \<notin> set (drop 1 line) \<Longrightarrow> parseQuestionLine line = Inl NoClosingQuote"
  by (simp add: parseQuestionLine_def Index_notin)

lemma parseQuestionLine_quote:
  assumes "quote \<in> set (drop 1 line)"
  shows "parseQuestionLine line =
     (let question = takeWhile (\<lambda>c. c \<noteq> quote) (drop 1 line);
          remaining = TrimSpace (afterClosingQuote line)
      in if remaining = [] then Inl NoIndicator
         else (case Atoi [hd remaining] of
                 (correct, ok) \<Rightarrow>
                   if \<not> ok then Inl InvalidIndicator
                   else if correct \<noteq> 0 \<and> correct \<noteq> 1 then Inl (NotZeroOrOne correct)
                   else if question = [] then Inl EmptyQuestion
                   else Inr (question, correct)))"
proof -
  let ?k = "length (takeWhile (\<lambda>c. c \<noteq> quote) (drop 1 line))"
  have ix: "Index (drop 1 line) quote + 1 = int ?k + 1" using assms by (simp add: Index_in)
  have n: "nat (int ?k + 1) = Suc ?k" by simp
  have q: "drop 1 (take (Suc ?k) line) = takeWhile (\<lambda>c. c \<noteq> quote) (drop 1 line)"
    by (metis One_nat_def drop_take diff_Suc_1 takeWhile_eq_take)
  have r: "drop (Suc ?k + 1) line = afterClosingQuote line"
    unfolding afterClosingQuote_def
    by (metis (no_types, lifting) One_nat_def add.commute drop_drop dropWhile_eq_drop plus_1_eq_Suc add_Suc_right add_Suc)
  show ?thesis
    unfolding parseQuestionLine_def ix n Let_def q r by (simp split: prod.split)
qed

lemma Atoi_byte: "Atoi [c] = (if isDigit c then (digitVal c, True) else (0, False))"
proof -
  have d: "0 \<le> digitVal c \<and> digitVal c \<le> 9" if "isDigit c"
    using that by (auto simp: isDigit_def digitVal_def)
  have s: "\<not> isDigit CHR ''-''" "\<not> isDigit CHR ''+''" by (simp_all add: isDigit_def)
  show ?thesis
  proof (cases "isDigit c")
    case True
    then have "c \<noteq> CHR ''-''" "c \<noteq> CHR ''+''" using s by auto
    then show ?thesis using True d[OF True] by (simp add: Atoi_def Let_def)
  next
    case False
    then show ?thesis by (auto simp: Atoi_def Let_def)
  qed
qed

lemma digit_zero_one:
  assumes "isDigit c" "digitVal c = 0 \<or> digitVal c = 1"
  shows "c = CHR ''0'' \<or> c = CHR ''1''"
proof -
  have "of_char c = (48::nat) \<or> of_char c = (49::nat)"
    using assms by (auto simp: digitVal_def)
  moreover have "of_char CHR ''0'' = (48::nat)" "of_char CHR ''1'' = (49::nat)" by simp_all
  ultimately show ?thesis by (metis of_char_eq_iff)
qed

lemma malformed_fails:
  assumes "malformedLine line"
  shows "\<exists>err. parseQuestionLine line = Inl err"
proof (cases "quote \<in> set (drop 1 line)")
  case False
  then show ?thesis by (simp add: parseQuestionLine_no_quote)
next
  case True
  let ?rem = "TrimSpace (afterClosingQuote line)"
  let ?q = "takeWhile (\<lambda>c. c \<noteq> quote) (drop 1 line)"
  from assms True consider "?rem = []" | "?rem \<noteq> []" "invalidDigit line" | "?rem \<noteq> []" "?q = []"
    by (auto simp: malformedLine_def missingClosingQuote_def missingDigit_def emptyQuestionText_def)
  then show ?thesis
  proof cases
    case 1
    then show ?thesis by (simp add: parseQuestionLine_quote[OF True])
  next
    case 2
    then obtain c rest where cr: "?rem = c # rest" and c: "c \<noteq> CHR ''0''" "c \<noteq> CHR ''1''"
      by (auto simp: invalidDigit_def split: list.splits)
    show ?thesis
    proof (cases "isDigit c")
      case d: True
      have "digitVal c \<noteq> 0 \<and> digitVal c \<noteq> 1" using digit_zero_one[OF d] c by blast
      then show ?thesis using d by (simp add: parseQuestionLine_quote[OF True] cr Atoi_byte)
    next
      case False
      then show ?thesis by (simp add: parseQuestionLine_quote[OF True] cr Atoi_byte)
    qed
  next
    case 3
    then show ?thesis
      by (auto simp add: parseQuestionLine_quote[OF True] Let_def split: prod.splits)
  qed
qed

lemma scanLoop_malformed:
  assumes "\<exists>l\<in>set lines. TrimSpace l \<noteq> [] \<and> malformedLine (TrimSpace l)"
  shows "\<exists>err. scanLoop questionID questions lines = Inl err"
  using assms
proof (induction lines arbitrary: questionID questions)
  case Nil
  then show ?case by simp
next
  case (Cons l ls)
  show ?case
  proof (cases "TrimSpace l = []")
    case True
    then have "\<exists>l\<in>set ls. TrimSpace l \<noteq> [] \<and> malformedLine (TrimSpace l)"
      using Cons.prems by auto
    then show ?thesis using True Cons.IH by simp
  next
    case False
    show ?thesis
    proof (cases "parseQuestionLine (TrimSpace l)")
      case (Inl e)
      then show ?thesis using False by simp
    next
      case (Inr qc)
      then have "\<not> malformedLine (TrimSpace l)" using malformed_fails by fastforce
      then have "\<exists>l\<in>set ls. TrimSpace l \<noteq> [] \<and> malformedLine (TrimSpace l)"
        using Cons.prems by auto
      then show ?thesis using False Inr Cons.IH by (simp split: prod.splits)
    qed
  qed
qed

lemma Load_default:
  "ParseQuizQuestions file = Inl err \<Longrightarrow> LoadQuizQuestions file = DefaultQuizQuestions"
  by (simp add: LoadQuizQuestions_def)

text \<open>
  Claim C9 (question-file load). If a line of the file is, once trimmed, not blank and
  malformed (no closing quote, no digit after it, a first character after it other than
  0 and 1, or no text between the quotes), \<open>ParseQuizQuestions\<close> returns an error, which
  carries no questions, and \<open>LoadQuizQuestions\<close> returns the default questions. Whenever
  \<open>ParseQuizQuestions\<close> returns an error, for whatever reason, \<open>LoadQuizQuestions\<close>
  returns the default questions.
\<close>
theorem C9_malformed_file:
  "((\<exists>l\<in>set lines. TrimSpace l \<noteq> [] \<and> malformedLine (TrimSpace l)) \<longrightarrow>
      (\<exists>err. ParseQuizQuestions (Scanned lines scanErr) = Inl err)
      \<and> LoadQuizQuestions (Scanned lines scanErr) = DefaultQuizQuestions)
   \<and> ((\<exists>err. ParseQuizQuestions file = Inl err) \<longrightarrow>
        LoadQuizQuestions file = DefaultQuizQuestions)"
proof -
  have 1: "\<exists>err. ParseQuizQuestions (Scanned lines scanErr) = Inl err"
    if m: "\<exists>l\<in>set lines. TrimSpace l \<noteq> [] \<and> malformedLine (TrimSpace l)"
  proof -
    obtain e where "scanLoop 1 [] lines = Inl e" using scanLoop_malformed[OF m] by blast
    then show ?thesis by simp
  qed
  show ?thesis using 1 Load_default by blast
qed

lemma parse_two_lines:
  "ParseQuizQuestions (Scanned [porkLine, '''', chickenLine] False) =
     Inr [\<lparr>ID = 1, Question = ''Pork'', Options = optionLabels, Correct = 1\<rparr>,
          \<lparr>ID = 2, Question = ''Chicken'', Options = optionLabels, Correct = 0\<rparr>]"
proof -
  have t: "TrimSpace porkLine = porkLine" "TrimSpace [] = []" "TrimSpace chickenLine = chickenLine"
    "TrimSpace '' 1'' = ''1''" "TrimSpace '' 0'' = ''0''"
    by code_simp+
  have p: "parseQuestionLine porkLine = Inr (''Pork'', 1)"
    "parseQuestionLine chickenLine = Inr (''Chicken'', 0)"
    by (simp_all add: porkLine_def chickenLine_def parseQuestionLine_def t quote_def Atoi_def
        isDigit_def digitVal_def Let_def)
  have n: "porkLine \<noteq> []" "chickenLine \<noteq> []" by (simp_all add: porkLine_def chickenLine_def)
  show ?thesis by (simp add: t p n)
qed

lemma parse_nbsp_lines:
  "ParseQuizQuestions (Scanned [nbspLine, blankLine] False) =
     Inr [\<lparr>ID = 1, Question = ''Pork'', Options = optionLabels, Correct = 1\<rparr>]"
proof -
  have t: "TrimSpace nbspLine = nbspLine" "TrimSpace blankLine = []"
    "TrimSpace ([CHR 0xC2, CHR 0xA0] @ ''1'') = ''1''"
    by code_simp+
  have p: "parseQuestionLine nbspLine = Inr (''Pork'', 1)"
    using t(3) by (simp add: nbspLine_def parseQuestionLine_def quote_def Atoi_def
        isDigit_def digitVal_def Let_def)
  have n: "nbspLine \<noteq> []" by (simp add: nbspLine_def)
  show ?thesis by (simp add: t p n)
qed

text \<open>Claim C9 on a file whose second line has no closing quote, and on a file that cannot be opened.\<close>
theorem C9_malformed_file_witness:
  "(\<exists>l\<in>set [porkLine, brokenLine]. TrimSpace l \<noteq> [] \<and> malformedLine (TrimSpace l))
   \<and> (\<exists>err. ParseQuizQuestions (Scanned [porkLine, brokenLine] False) = Inl err)
   \<and> LoadQuizQuestions (Scanned [porkLine, brokenLine] False) = DefaultQuizQuestions
   \<and> (\<exists>err. ParseQuizQuestions OpenFails = Inl err)
   \<and> LoadQuizQuestions OpenFails = DefaultQuizQuestions"
proof -
  have t: "TrimSpace brokenLine = quote # ''Chicken 0''"
    by code_simp
  have "missingClosingQuote (TrimSpace brokenLine)"
    unfolding t by (simp add: missingClosingQuote_def quote_def)
  then have h: "\<exists>l\<in>set [porkLine, brokenLine]. TrimSpace l \<noteq> [] \<and> malformedLine (TrimSpace l)"
    using t by (simp add: malformedLine_def)
  have o: "\<exists>err. ParseQuizQuestions OpenFails = Inl err" by simp
  show ?thesis
    using h o C9_malformed_file[of "[porkLine, brokenLine]" False OpenFails] by blast
qed

section \<open>Properties of the bot\<close>






lemma finishQuiz_others:
  "finishQuiz env chatID exited user b = Inr b' \<Longrightarrow> c \<noteq> chatID \<Longrightarrow>
   quizSessions b' c = quizSessions b c"
  by (auto simp: finishQuiz_def Let_def split: option.splits if_splits sum.splits prod.splits)






lemma startQuiz_total: "\<exists>b0. startQuiz rnd chatID b = Inr b0"
  by (auto simp: startQuiz_def sendQuestion_def index_def Let_def)



lemma Split_samples:
  "Split ''quiz_0_0'' (CHR ''_'') = [''quiz'', ''0'', ''0'']"
  "Split ''quiz_1_1'' (CHR ''_'') = [''quiz'', ''1'', ''1'']"
  "Split ''quiz_5_0'' (CHR ''_'') = [''quiz'', ''5'', ''0'']"
  "Split ''quiz_-1_0'' (CHR ''_'') = [''quiz'', ''-1'', ''0'']"
  "Split ''quiz_x_y'' (CHR ''_'') = [''quiz'', ''x'', ''y'']"
  by simp_all

lemma Atoi_samples:
  "Atoi ''0'' = (0, True)" "Atoi ''1'' = (1, True)" "Atoi ''5'' = (5, True)"
  "Atoi ''-1'' = (- 1, True)" "Atoi ''x'' = (0, False)" "Atoi ''y'' = (0, False)"
  by (simp_all add: Atoi_def isDigit_def digitVal_def Let_def)

text \<open>
  Claim C3 (an index out of range). In a session of two questions the answers
  \<open>quiz_5_0\<close> and \<open>quiz_-1_0\<close> make \<open>handleQuizAnswer\<close> panic: it indexes
  \<open>session.Questions\<close> without a check. \<open>sendQuestion\<close> does check the upper bound and
  returns for the index 5.
\<close>
theorem C3_index_out_of_range:
  "handleQuizAnswer env1 1 ''quiz_5_0'' user1 bot1 = Inl IndexOutOfRange
   \<and> handleQuizAnswer env1 1 ''quiz_-1_0'' user1 bot1 = Inl IndexOutOfRange
   \<and> sendQuestion 1 5 bot1 = Inr bot1"
  by (simp add: handleQuizAnswer_def Split_samples Atoi_samples bot1_def bot0_def session1_def
      answerSession_def sendQuestion_def index_def DefaultQuizQuestions_def Let_def)

text \<open>
  Claim C7 (invalid input). The answer \<open>quiz_x_y\<close> has three parts, none a number.
  \<open>handleQuizAnswer\<close> drops the errors of \<open>Atoi\<close> and takes it for option 0 of question 0:
  the session moves on by one question and, option 0 being right for that question, its
  score goes up.
\<close>
theorem C7_unparsed_answer_counts:
  "handleQuizAnswer env1 1 ''quiz_x_y'' user1 bot1 =
     Inr (bot1\<lparr>quizSessions :=
                 Map.empty(1 \<mapsto> session1\<lparr>SessionScore := 1, CurrentQuestion := 1\<rparr>)\<rparr>)"
  by (simp add: handleQuizAnswer_def Split_samples Atoi_samples bot1_def bot0_def session1_def
      answerSession_def sendQuestion_def index_def DefaultQuizQuestions_def Let_def)

lemma handleQuizAnswer_no_session:
  "quizSessions b chatID = None \<Longrightarrow> handleQuizAnswer env chatID data user b = Inr b"
  by (simp add: handleQuizAnswer_def Let_def)

lemma finishQuiz_no_session:
  "quizSessions b chatID = None \<Longrightarrow> finishQuiz env chatID exited user b = Inr b"
  by (simp add: finishQuiz_def)

lemma handleQuizAnswer_not_three_parts:
  "length (Split data (CHR ''_'')) \<noteq> 3 \<Longrightarrow> handleQuizAnswer env chatID data user b = Inr b"
  by (simp add: handleQuizAnswer_def Let_def)






end
